theory Spec2Isabelle
  imports Main "HOL-Library.Finite_Map"
begin

section \<open>JavaScript values\<close>

text \<open>
  The option bags, attribute descriptors and foreign-key descriptors handled by the association
  helpers are plain JavaScript data. A plain object is a finite map from property names to
  values: property names are unique, a property may be present with the value
  \<open>undefined\<close>, and two objects are deeply equal when they have the same keys with
  deeply equal values, whatever the insertion order. Numbers are restricted to integers.
\<close>

datatype jsval =
    JUndefined
  | JNull
  | JBool bool
  | JNum int
  | JStr string
  | JObj "(string, jsval) fmap"

type_synonym props = "(string, jsval) fmap"

text \<open>\<open>o.k\<close> on an object: the value of the own property, \<open>undefined\<close> when absent.\<close>

definition js_get :: "props \<Rightarrow> string \<Rightarrow> jsval" where
  "js_get m k = (case fmlookup m k of None \<Rightarrow> JUndefined | Some v \<Rightarrow> v)"

text \<open>\<open>v?.k\<close>: \<open>undefined\<close> on \<open>undefined\<close>, \<open>null\<close> and on primitives without that property.\<close>

definition opt_get :: "jsval \<Rightarrow> string \<Rightarrow> jsval" where
  "opt_get v k = (case v of JObj m \<Rightarrow> js_get m k | _ \<Rightarrow> JUndefined)"

text \<open>\<open>{...v}\<close>: the own enumerable properties of an object, nothing for the other values
  that reach a spread here (strings are handled before the spread).\<close>

definition spread :: "jsval \<Rightarrow> props" where
  "spread v = (case v of JObj m \<Rightarrow> m | _ \<Rightarrow> fmempty)"

fun truthy :: "jsval \<Rightarrow> bool" where
  "truthy JUndefined = False"
| "truthy JNull = False"
| "truthy (JBool b) = b"
| "truthy (JNum n) = (n \<noteq> 0)"
| "truthy (JStr s) = (s \<noteq> [])"
| "truthy (JObj m) = True"

definition nullish :: "jsval \<Rightarrow> bool" where
  "nullish v = (v = JUndefined \<or> v = JNull)"

text \<open>\<open>a ?? b\<close> and \<open>a || b\<close>.\<close>

definition coalesce :: "jsval \<Rightarrow> jsval \<Rightarrow> jsval" where
  "coalesce a b = (if nullish a then b else a)"

definition js_or :: "jsval \<Rightarrow> jsval \<Rightarrow> jsval" where
  "js_or a b = (if truthy a then a else b)"

text \<open>Modelled from the spec: \<open>removeUndefined\<close> of \<open>utils/object.js\<close>, which is not
  among the sources. Section 4.1: the output has all \<open>undefined\<close>-valued keys removed.\<close>

definition removeUndefined :: "props \<Rightarrow> props" where
  "removeUndefined m = fmfilter (\<lambda>k. fmlookup m k \<noteq> Some JUndefined) m"

text \<open>lodash \<open>omit(o, key)\<close> and \<open>isEqual\<close> on plain data: a copy without the key, and deep
  structural equality.\<close>

definition omit :: "props \<Rightarrow> string \<Rightarrow> props" where
  "omit m k = fmdrop k m"

definition isEqual :: "props \<Rightarrow> props \<Rightarrow> bool" where
  "isEqual a b = (a = b)"

text \<open>The string under which a value is used as a property key (\<open>o[v]\<close>): strings are used
  as they are, the other values through JavaScript's \<open>ToString\<close>.\<close>

fun digits :: "nat \<Rightarrow> string" where
  "digits n = (if n < 10 then [char_of (48 + n)] else digits (n div 10) @ [char_of (48 + n mod 10)])"

fun toPropertyKey :: "jsval \<Rightarrow> string" where
  "toPropertyKey (JStr s) = s"
| "toPropertyKey JUndefined = ''undefined''"
| "toPropertyKey JNull = ''null''"
| "toPropertyKey (JBool b) = (if b then ''true'' else ''false'')"
| "toPropertyKey (JNum n) = (if n < 0 then CHR ''-'' # digits (nat (- n)) else digits (nat n))"
| "toPropertyKey (JObj m) = ''[object Object]''"

section \<open>Errors\<close>

text \<open>One constructor for each \<open>throw\<close> of the association helpers, carrying the names
  its message cites; \<open>Thrown\<close> is an exception raised by a callback (a hook, a builder, a
  normalizer).\<close>

datatype IncompatibilityStatus = DIFFERENT_TYPES | DIFFERENT_TARGETS | DIFFERENT_OPTIONS

datatype error =
    NotAModelError string
  | ModelNotInitializedError string
  | NamingCollisionError string string
  | RenamedOptionError string
  | AssertionError
  | TypeError
  | AssociationError_SameName string string
  | AssociationError_Incompatible string "IncompatibilityStatus option"
  | AssociationError_Failed string error
  | Thrown string

fun isAssociationError :: "error \<Rightarrow> bool" where
  "isAssociationError (AssociationError_SameName a m) = True"
| "isAssociationError (AssociationError_Incompatible a s) = True"
| "isAssociationError (AssociationError_Failed a e) = True"
| "isAssociationError e = False"

section \<open>Foreign-key normalization\<close>

definition normalizeForeignKeyOptions :: "jsval \<Rightarrow> props" where
  "normalizeForeignKeyOptions foreignKey =
     (case foreignKey of
        JStr s \<Rightarrow> fmupd ''name'' (JStr s) fmempty
      | _ \<Rightarrow> removeUndefined
               (fmupd ''fieldName'' JUndefined
                 (fmupd ''name'' (coalesce (opt_get foreignKey ''name'') (opt_get foreignKey ''fieldName''))
                   (spread foreignKey))))"

section \<open>Models, associations and the heap\<close>

text \<open>
  Model classes and association instances are objects that the helpers read and that hooks and
  builders mutate, and the uniqueness check compares association instances by identity
  (\<open>existingRoot === existingAssociation\<close>). They live in a heap: a reference is a number,
  and \<open>world\<close> maps each reference to the object it denotes.
\<close>

record association =
  associationType :: string
  assoc_source :: nat
  assoc_target :: nat
  assoc_as :: string
  assoc_options :: props
  parentAssociation :: "nat option"
  rootAssociation :: nat
  accessors :: "(string, string) fmap"

text \<open>A model class: \<open>attributes\<close> is what \<open>getAttributes()\<close> returns, \<open>primaryKeys\<close>
  is \<open>Object.keys(primaryKeys)\<close>, \<open>tableName\<close> is what \<open>getTableName()\<close> returns,
  \<open>options_name\<close> is \<open>options.name\<close> and \<open>sequelize\<close> the instance the model was
  defined on, if any.\<close>

record model =
  model_name :: string
  sequelize :: "nat option"
  attributes :: "(string, props) fmap"
  primaryKeys :: "string list"
  tableName :: jsval
  options_name :: props
  associations :: "(string, nat) fmap"

record world =
  models :: "nat \<Rightarrow> model"
  assocs :: "nat \<Rightarrow> association"

text \<open>An association class (\<open>BelongsTo\<close>, \<open>HasOne\<close>, \<open>HasMany\<close>,
  \<open>BelongsToMany\<close>): its \<open>name\<close> and its static \<open>isMultiAssociation\<close>.\<close>

record assoc_class =
  class_name :: string
  isMultiAssociation :: bool

text \<open>The functions imported from modules that are not among the sources
  (\<open>utils/model-utils.js\<close>, \<open>utils/string.js\<close>) are parameters.\<close>

record collaborators =
  isModelStatic :: "nat \<Rightarrow> bool"
  isSameInitialModel :: "nat \<Rightarrow> nat \<Rightarrow> bool"
  pluralize :: "string \<Rightarrow> string"
  singularize :: "string \<Rightarrow> string"

section \<open>Collision detector\<close>

definition checkNamingCollision :: "model \<Rightarrow> string \<Rightarrow> error + unit" where
  "checkNamingCollision source associationName =
     (if associationName |\<in>| fmdom (attributes source)
      then Inl (NamingCollisionError associationName (model_name source))
      else Inr ())"

section \<open>Constraint deriver\<close>

text \<open>\<open>Object.keys(source.primaryKeys).map(a => source.getAttributes()[a].field || a)\<close>;
  reading \<open>.field\<close> of a missing attribute is a \<open>TypeError\<close>.\<close>

fun primaryKeyFields :: "model \<Rightarrow> string list \<Rightarrow> error + jsval list" where
  "primaryKeyFields source [] = Inr []"
| "primaryKeyFields source (primaryKeyAttribute # rest) =
     (case fmlookup (attributes source) primaryKeyAttribute of
        None \<Rightarrow> Inl TypeError
      | Some attribute \<Rightarrow>
          (case primaryKeyFields source rest of
             Inl e \<Rightarrow> Inl e
           | Inr fs \<Rightarrow> Inr (js_or (js_get attribute ''field'') (JStr primaryKeyAttribute) # fs)))"

text \<open>The attribute is mutated in place by the source; the model returns the attribute as the
  call leaves it.\<close>

definition addForeignKeyConstraints :: "props \<Rightarrow> model \<Rightarrow> props \<Rightarrow> string \<Rightarrow> error + props" where
  "addForeignKeyConstraints newAttribute source options key =
     (if js_get options ''foreignKeyConstraints'' \<noteq> JBool False then
        (case primaryKeyFields source (primaryKeys source) of
           Inl e \<Rightarrow> Inl e
         | Inr pks \<Rightarrow>
             if length pks = 1 \<or> JStr key \<notin> set pks then
               (let a1 = fmupd ''references''
                           (JObj (fmupd ''key'' (js_or (JStr key) (case pks of [] \<Rightarrow> JUndefined | p # ps \<Rightarrow> p))
                                   (fmupd ''model'' (tableName source) fmempty)))
                           newAttribute;
                    a2 = fmupd ''onDelete''
                           (coalesce (js_get a1 ''onDelete'')
                              (if js_get a1 ''allowNull'' \<noteq> JBool False then JStr ''SET NULL'' else JStr ''CASCADE''))
                           a1;
                    a3 = fmupd ''onUpdate'' (coalesce (js_get a2 ''onUpdate'') (JStr ''CASCADE'')) a2
                in Inr a3)
             else Inr newAttribute)
      else Inr newAttribute)"

section \<open>Accessor injector\<close>

text \<open>
  A prototype is the finite map of its own properties. A property holds either a function that
  was there before the injection, or the closure that \<open>mixinMethods\<close> creates, which captures
  the association and the name of the association method it forwards to.
\<close>

datatype ('f, 'a) js_function = UserFunction 'f | MixinMethod 'a string

record ('f, 'a) property_descriptor =
  enumerable :: bool
  writable :: bool
  configurable :: bool
  prop_value :: "('f, 'a) js_function"

type_synonym ('f, 'a) prototype = "(string, ('f, 'a) property_descriptor) fmap"

text \<open>
  \<open>association.accessors\<close> and \<open>aliases\<close> are plain objects with string values, read with
  \<open>o[method]\<close>: the own property when there is one, else the member that the object inherits
  from its prototype, else \<open>undefined\<close>. The prototype is a parameter, \<open>inherited\<close>: it maps
  the name of each inherited member to the string that the member gives when it is used as a
  property key. The members of \<open>Object.prototype\<close> are functions and, for \<open>__proto__\<close>,
  an object: all of them are truthy.
\<close>

text \<open>\<open>association.accessors[method]\<close>, as the property key it is used for: a kind with
  neither an accessor nor an inherited member gives \<open>undefined\<close>, that is the key
  \<open>"undefined"\<close>.\<close>

definition targetMethodName :: "(string, string) fmap \<Rightarrow> (string, string) fmap \<Rightarrow> string \<Rightarrow> string" where
  "targetMethodName inherited assoc_accessors method =
     (case fmlookup assoc_accessors method of
        Some n \<Rightarrow> n
      | None \<Rightarrow> (case fmlookup inherited method of Some k \<Rightarrow> k | None \<Rightarrow> ''undefined''))"

text \<open>\<open>aliases?.[method] || method\<close>, as the property key of \<open>association[realMethod]\<close>.\<close>

definition realMethod :: "(string, string) fmap \<Rightarrow> (string, string) fmap option \<Rightarrow> string \<Rightarrow> string" where
  "realMethod inherited aliases method =
     (case aliases of
        None \<Rightarrow> method
      | Some al \<Rightarrow> (case fmlookup al method of
                     Some r \<Rightarrow> if r = [] then method else r
                   | None \<Rightarrow> (case fmlookup inherited method of Some k \<Rightarrow> k | None \<Rightarrow> method)))"

text \<open>\<open>Object.prototype\<close> as Node.js has it: a built-in function prints as
  \<open>function name() { [native code] }\<close>, and \<open>__proto__\<close> gives the prototype itself, an
  object.\<close>

definition nativeFunction :: "string \<Rightarrow> string" where
  "nativeFunction f = ''function '' @ f @ ''() { [native code] }''"

definition objectPrototype :: "(string, string) fmap" where
  "objectPrototype = fmap_of_list
     [(''constructor'', nativeFunction ''Object''),
      (''__defineGetter__'', nativeFunction ''__defineGetter__''),
      (''__defineSetter__'', nativeFunction ''__defineSetter__''),
      (''hasOwnProperty'', nativeFunction ''hasOwnProperty''),
      (''__lookupGetter__'', nativeFunction ''__lookupGetter__''),
      (''__lookupSetter__'', nativeFunction ''__lookupSetter__''),
      (''isPrototypeOf'', nativeFunction ''isPrototypeOf''),
      (''propertyIsEnumerable'', nativeFunction ''propertyIsEnumerable''),
      (''toString'', nativeFunction ''toString''),
      (''valueOf'', nativeFunction ''valueOf''),
      (''__proto__'', ''[object Object]''),
      (''toLocaleString'', nativeFunction ''toLocaleString'')]"

text \<open>The descriptor that \<open>Object.defineProperty\<close> installs for
  \<open>{enumerable: false, value}\<close> on a property that does not exist yet: \<open>writable\<close> and
  \<open>configurable\<close> default to false.\<close>

definition mixinDescriptor :: "'a \<Rightarrow> string \<Rightarrow> ('f, 'a) property_descriptor" where
  "mixinDescriptor association real =
     \<lparr>enumerable = False, writable = False, configurable = False,
      prop_value = MixinMethod association real\<rparr>"

text \<open>One iteration of the loop of \<open>mixinMethods\<close>.\<close>

definition mixinMethod ::
  "(string, string) fmap \<Rightarrow> 'a \<Rightarrow> (string, string) fmap \<Rightarrow> (string, string) fmap option
    \<Rightarrow> ('f, 'a) prototype \<Rightarrow> string \<Rightarrow> ('f, 'a) prototype" where
  "mixinMethod inherited association assoc_accessors aliases mixinTargetPrototype method =
     (if targetMethodName inherited assoc_accessors method |\<in>| fmdom mixinTargetPrototype
      then mixinTargetPrototype
      else fmupd (targetMethodName inherited assoc_accessors method)
             (mixinDescriptor association (realMethod inherited aliases method))
             mixinTargetPrototype)"

definition mixinMethods ::
  "(string, string) fmap \<Rightarrow> 'a \<Rightarrow> (string, string) fmap \<Rightarrow> ('f, 'a) prototype \<Rightarrow> string list
    \<Rightarrow> (string, string) fmap option \<Rightarrow> ('f, 'a) prototype" where
  "mixinMethods inherited association assoc_accessors mixinTargetPrototype methods aliases =
     foldl (mixinMethod inherited association assoc_accessors aliases) mixinTargetPrototype methods"

text \<open>Calling a function value on a receiver: the injected closure is
  \<open>value(...params) { return association[realMethod](this, ...params) }\<close>, where
  \<open>impl a m args\<close> stands for \<open>a[m](...args)\<close>.\<close>

fun call_function ::
  "('a \<Rightarrow> string \<Rightarrow> 'v list \<Rightarrow> 'r) \<Rightarrow> ('f \<Rightarrow> 'v \<Rightarrow> 'v list \<Rightarrow> 'r) \<Rightarrow> ('f, 'a) js_function
    \<Rightarrow> 'v \<Rightarrow> 'v list \<Rightarrow> 'r" where
  "call_function impl user (MixinMethod association real) this params =
     impl association real (this # params)"
| "call_function impl user (UserFunction f) this params = user f this params"

section \<open>Equivalence classifier and uniqueness check\<close>

definition getAssociationsIncompatibilityStatus ::
  "collaborators \<Rightarrow> association \<Rightarrow> assoc_class \<Rightarrow> nat \<Rightarrow> props \<Rightarrow> IncompatibilityStatus option" where
  "getAssociationsIncompatibilityStatus env existingAssociation newAssociationType newTarget newOptions =
     (if associationType existingAssociation \<noteq> class_name newAssociationType then Some DIFFERENT_TYPES
      else if \<not> isSameInitialModel env (assoc_target existingAssociation) newTarget then Some DIFFERENT_TARGETS
      else
        (let opts1 = omit (assoc_options existingAssociation) ''inverse'';
             opts2 = omit newOptions ''inverse''
         in if \<not> isEqual opts1 opts2 then Some DIFFERENT_OPTIONS else None))"

text \<open>The alias of normalized options: \<open>options.as\<close>, as the key of
  \<open>source.associations[as]\<close>.\<close>

definition alias_of :: "props \<Rightarrow> string" where
  "alias_of options = toPropertyKey (js_get options ''as'')"

definition assertAssociationUnique ::
  "collaborators \<Rightarrow> assoc_class \<Rightarrow> nat \<Rightarrow> nat \<Rightarrow> props \<Rightarrow> nat option \<Rightarrow> world \<Rightarrow> error + unit" where
  "assertAssociationUnique env type source target options parent w =
     (case fmlookup (associations (models w source)) (alias_of options) of
        None \<Rightarrow> Inr ()
      | Some existing \<Rightarrow>
          (let existingAssociation = assocs w existing;
               incompatibilityStatus =
                 getAssociationsIncompatibilityStatus env existingAssociation type target options
           in if (parent \<noteq> None \<or> parentAssociation existingAssociation \<noteq> None)
                   \<and> incompatibilityStatus = None
              then Inr ()
              else
                (let existingRoot = rootAssociation existingAssociation
                 in if parent = None \<and> existingRoot = existing
                    then Inl (AssociationError_SameName (alias_of options) (model_name (models w source)))
                    else Inl (AssociationError_Incompatible (alias_of options) incompatibilityStatus))))"

definition assertAssociationModelIsDefined :: "model \<Rightarrow> error + unit" where
  "assertAssociationModelIsDefined m =
     (if sequelize m = None then Inl (ModelNotInitializedError (model_name m)) else Inr ())"

section \<open>Declaration orchestrator\<close>

text \<open>
  The callbacks are parameters. A normalizer computes the normalized options or throws. The hook
  runner and the builder are arbitrary code: they take the heap and return it as they leave it,
  with their result or the exception they raised. Both receive the normalized options object
  itself, so they also return the options as they leave them.
  The property \<open>sequelize\<close> that \<open>defineAssociation\<close> defines on the normalized options is a
  non-enumerable accessor, which no read of the options modelled here sees; it is left out.
\<close>

record hook_context =
  ctx_source :: nat
  ctx_target :: nat
  ctx_type :: assoc_class
  ctx_association :: "nat option"
  ctx_sequelize :: "nat option"

type_synonym normalizer = "assoc_class \<Rightarrow> props \<Rightarrow> nat \<Rightarrow> nat \<Rightarrow> world \<Rightarrow> error + props"
type_synonym builder = "props \<Rightarrow> world \<Rightarrow> (error + nat \<times> props) \<times> world"
type_synonym hook_runner = "string \<Rightarrow> hook_context \<Rightarrow> props \<Rightarrow> world \<Rightarrow> (error + props) \<times> world"

text \<open>\<open>if (normalizedOptions.hooks) source.hooks.runSync(event, context, normalizedOptions)\<close>.\<close>

definition runHook :: "hook_runner \<Rightarrow> string \<Rightarrow> hook_context \<Rightarrow> props \<Rightarrow> world \<Rightarrow> (error + props) \<times> world" where
  "runHook runSync event ctx normalizedOptions w =
     (if truthy (js_get normalizedOptions ''hooks'') then runSync event ctx normalizedOptions w
      else (Inr normalizedOptions, w))"

text \<open>\<open>source.associations[normalizedOptions.as] ?? construct(normalizedOptions)\<close> inside the
  \<open>try\<close>, whose \<open>catch\<close> wraps the exception of the builder.\<close>

definition constructOrReuse :: "nat \<Rightarrow> builder \<Rightarrow> props \<Rightarrow> world \<Rightarrow> (error + nat \<times> props) \<times> world" where
  "constructOrReuse source construct normalizedOptions w =
     (case fmlookup (associations (models w source)) (alias_of normalizedOptions) of
        Some existing \<Rightarrow> (Inr (existing, normalizedOptions), w)
      | None \<Rightarrow>
          (case construct normalizedOptions w of
             (Inl e, w') \<Rightarrow> (Inl (AssociationError_Failed (alias_of normalizedOptions) e), w')
           | (Inr r, w') \<Rightarrow> (Inr r, w')))"

text \<open>The second half of \<open>defineAssociation\<close>, from the \<open>beforeAssociate\<close> hook to the
  \<open>return\<close>.\<close>

definition associate ::
  "assoc_class \<Rightarrow> nat \<Rightarrow> nat \<Rightarrow> builder \<Rightarrow> hook_runner \<Rightarrow> props \<Rightarrow> world \<Rightarrow> (error + nat) \<times> world" where
  "associate type source target construct runSync normalizedOptions w =
     (let ctx = \<lparr>ctx_source = source, ctx_target = target, ctx_type = type, ctx_association = None,
                 ctx_sequelize = sequelize (models w source)\<rparr>
      in case runHook runSync ''beforeAssociate'' ctx normalizedOptions w of
           (Inl e, w1) \<Rightarrow> (Inl e, w1)
         | (Inr opts1, w1) \<Rightarrow>
             (case constructOrReuse source construct opts1 w1 of
                (Inl e, w2) \<Rightarrow> (Inl e, w2)
              | (Inr (association, opts2), w2) \<Rightarrow>
                  (case runHook runSync ''afterAssociate'' (ctx\<lparr>ctx_association := Some association\<rparr>) opts2 w2 of
                     (Inl e, w3) \<Rightarrow> (Inl e, w3)
                   | (Inr opts3, w3) \<Rightarrow>
                       (case checkNamingCollision (models w3 source) (alias_of opts3) of
                          Inl e \<Rightarrow> (Inl e, w3)
                        | Inr u \<Rightarrow> (Inr association, w3)))))"

definition defineAssociation ::
  "collaborators \<Rightarrow> assoc_class \<Rightarrow> nat \<Rightarrow> nat \<Rightarrow> props \<Rightarrow> nat option \<Rightarrow> normalizer \<Rightarrow> builder \<Rightarrow> hook_runner
    \<Rightarrow> world \<Rightarrow> (error + nat) \<times> world" where
  "defineAssociation env type source target options parent normalizeOptions construct runSync w =
     (if \<not> isModelStatic env target then (Inl (NotAModelError (model_name (models w source))), w)
      else case assertAssociationModelIsDefined (models w source) of
        Inl e \<Rightarrow> (Inl e, w)
      | Inr u1 \<Rightarrow>
     (case assertAssociationModelIsDefined (models w target) of
        Inl e \<Rightarrow> (Inl e, w)
      | Inr u2 \<Rightarrow>
     (case normalizeOptions type options source target w of
        Inl e \<Rightarrow> (Inl e, w)
      | Inr normalizedOptions \<Rightarrow>
     (case checkNamingCollision (models w source) (alias_of normalizedOptions) of
        Inl e \<Rightarrow> (Inl e, w)
      | Inr u3 \<Rightarrow>
     (case assertAssociationUnique env type source target normalizedOptions parent w of
        Inl e \<Rightarrow> (Inl e, w)
      | Inr u4 \<Rightarrow> associate type source target construct runSync normalizedOptions w)))))"

section \<open>Naming normalizer\<close>

text \<open>The alias and the name pair that \<open>normalizeBaseAssociationOptions\<close> computes from
  \<open>options.as\<close>. A truthy \<open>as\<close> that is neither a plain object nor a string fails the
  \<open>assert\<close>.\<close>

definition resolveAlias :: "collaborators \<Rightarrow> bool \<Rightarrow> props \<Rightarrow> props \<Rightarrow> error + jsval \<times> jsval" where
  "resolveAlias env isMulti options targetName =
     (if truthy (js_get options ''as'') then
        (case js_get options ''as'' of
           JObj o_as \<Rightarrow> Inr (if isMulti then js_get o_as ''plural'' else js_get o_as ''singular'', JObj o_as)
         | JStr s \<Rightarrow>
             Inr (JStr s,
                  JObj (fmupd ''singular'' (if isMulti then JStr (singularize env s) else JStr s)
                         (fmupd ''plural'' (if isMulti then JStr s else JStr (pluralize env s)) fmempty)))
         | _ \<Rightarrow> Inl AssertionError)
      else Inr (if isMulti then js_get targetName ''plural'' else js_get targetName ''singular'',
                JObj targetName))"

definition normalizeBaseAssociationOptions ::
  "collaborators \<Rightarrow> assoc_class \<Rightarrow> props \<Rightarrow> nat \<Rightarrow> nat \<Rightarrow> world \<Rightarrow> error + props" where
  "normalizeBaseAssociationOptions env type options source target w =
     (if ''onDelete'' |\<in>| fmdom options \<or> ''onUpdate'' |\<in>| fmdom options
        then Inl (RenamedOptionError ''onDelete/onUpdate'')
      else if ''constraints'' |\<in>| fmdom options then Inl (RenamedOptionError ''constraints'')
      else if ''foreignKeyConstraint'' |\<in>| fmdom options then Inl (RenamedOptionError ''foreignKeyConstraint'')
      else
        (case resolveAlias env (isMultiAssociation type) options (options_name (models w target)) of
           Inl e \<Rightarrow> Inl e
         | Inr (as, name) \<Rightarrow>
             Inr (removeUndefined
                   (fmupd ''name'' name
                     (fmupd ''as'' as
                       (fmupd ''hooks'' (coalesce (js_get options ''hooks'') (JBool False))
                         (fmupd ''foreignKey'' (JObj (normalizeForeignKeyOptions (js_get options ''foreignKey'')))
                           options)))))))"

section \<open>A small schema\<close>

text \<open>
  The scenario of the specification, used to run the definitions: the models \<open>User\<close>
  (reference 0) and \<open>Post\<close> (reference 1), both initialised, and the declaration
  \<open>User.hasMany(Post, {as: "posts"})\<close>. The inflector adds or removes a final \<open>s\<close>.
\<close>

definition hasMany :: assoc_class where
  "hasMany = \<lparr>class_name = ''HasMany'', isMultiAssociation = True\<rparr>"

definition belongsTo :: assoc_class where
  "belongsTo = \<lparr>class_name = ''BelongsTo'', isMultiAssociation = False\<rparr>"

definition schema_env :: collaborators where
  "schema_env =
     \<lparr>isModelStatic = (\<lambda>r. r < 2),
      isSameInitialModel = (\<lambda>a b. a = b),
      pluralize = (\<lambda>s. s @ ''s''),
      singularize = (\<lambda>s. if s \<noteq> [] \<and> last s = CHR ''s'' then butlast s else s)\<rparr>"

definition userModel :: model where
  "userModel =
     \<lparr>model_name = ''User'', sequelize = Some 0,
      attributes = fmupd ''id'' (fmupd ''primaryKey'' (JBool True) fmempty) fmempty,
      primaryKeys = [''id''],
      tableName = JStr ''Users'',
      options_name = fmupd ''plural'' (JStr ''Users'') (fmupd ''singular'' (JStr ''User'') fmempty),
      associations = fmempty\<rparr>"

definition postModel :: model where
  "postModel =
     \<lparr>model_name = ''Post'', sequelize = Some 0,
      attributes = fmupd ''id'' (fmupd ''primaryKey'' (JBool True) fmempty) fmempty,
      primaryKeys = [''id''],
      tableName = JStr ''Posts'',
      options_name = fmupd ''plural'' (JStr ''Posts'') (fmupd ''singular'' (JStr ''Post'') fmempty),
      associations = fmempty\<rparr>"

text \<open>The accessors and aliases of a multi-valued association \<open>posts\<close>, as \<open>HasMany\<close>
  passes them to \<open>mixinMethods\<close>, and a model prototype on which the user has written
  \<open>getPosts\<close>.\<close>

definition postsAccessors :: "(string, string) fmap" where
  "postsAccessors =
     fmupd ''hasAll'' ''hasPosts'' (fmupd ''hasSingle'' ''hasPost'' (fmupd ''get'' ''getPosts'' fmempty))"

definition postsAliases :: "(string, string) fmap" where
  "postsAliases = fmupd ''hasAll'' ''has'' (fmupd ''hasSingle'' ''has'' fmempty)"

definition customGetPosts :: "(string, nat) property_descriptor" where
  "customGetPosts =
     \<lparr>enumerable = False, writable = True, configurable = True, prop_value = UserFunction ''custom''\<rparr>"

definition userPrototype :: "(string, nat) prototype" where
  "userPrototype = fmupd ''getPosts'' customGetPosts fmempty"

text \<open>A join model with a composite primary key, one of whose columns is renamed.\<close>

definition membershipModel :: model where
  "membershipModel =
     \<lparr>model_name = ''Membership'', sequelize = Some 0,
      attributes =
        fmupd ''groupId'' (fmupd ''primaryKey'' (JBool True) fmempty)
          (fmupd ''userId'' (fmupd ''field'' (JStr ''user_id'') (fmupd ''primaryKey'' (JBool True) fmempty))
             fmempty),
      primaryKeys = [''userId'', ''groupId''],
      tableName = JStr ''Memberships'',
      options_name = fmupd ''plural'' (JStr ''Memberships'') (fmupd ''singular'' (JStr ''Membership'') fmempty),
      associations = fmempty\<rparr>"

definition noAssociation :: association where
  "noAssociation =
     \<lparr>associationType = [], assoc_source = 0, assoc_target = 0, assoc_as = [], assoc_options = fmempty,
      parentAssociation = None, rootAssociation = 0, accessors = fmempty\<rparr>"

definition schema :: world where
  "schema = \<lparr>models = (\<lambda>r. if r = 0 then userModel else postModel), assocs = (\<lambda>r. noAssociation)\<rparr>"

text \<open>Modelled from the spec: the constructor of the association classes, which is not among
  the sources. Section 3 gives the fields of an association and section 4.4, step 11, has the
  new association registered on \<open>source\<close> under the resolved alias. \<open>new_ref\<close> is the
  reference of the new instance.\<close>

definition newAssociation :: "nat \<Rightarrow> assoc_class \<Rightarrow> nat \<Rightarrow> nat \<Rightarrow> nat option \<Rightarrow> builder" where
  "newAssociation new_ref type source target parent normalizedOptions w =
     (Inr (new_ref, normalizedOptions),
      w\<lparr>assocs := (assocs w)
            (new_ref :=
               \<lparr>associationType = class_name type, assoc_source = source, assoc_target = target,
                assoc_as = alias_of normalizedOptions, assoc_options = normalizedOptions,
                parentAssociation = parent,
                rootAssociation = (case parent of None \<Rightarrow> new_ref | Some p \<Rightarrow> rootAssociation (assocs w p)),
                accessors = fmempty\<rparr>),
        models := (models w)
            (source := (models w source)
               \<lparr>associations := fmupd (alias_of normalizedOptions) new_ref (associations (models w source))\<rparr>)\<rparr>)"

text \<open>A model without hooks, and a \<open>beforeAssociate\<close> hook that declares, on the source
  model, an attribute named like the alias.\<close>

definition noHooks :: hook_runner where
  "noHooks event ctx normalizedOptions w = (Inr normalizedOptions, w)"

definition attributeHook :: hook_runner where
  "attributeHook event ctx normalizedOptions w =
     (if event = ''beforeAssociate'' then
        (Inr normalizedOptions,
         w\<lparr>models := (models w)
              (ctx_source ctx := (models w (ctx_source ctx))
                 \<lparr>attributes := fmupd (alias_of normalizedOptions) fmempty
                                  (attributes (models w (ctx_source ctx)))\<rparr>)\<rparr>)
      else (Inr normalizedOptions, w))"

text \<open>The options \<open>{as: "posts"}\<close> and \<open>{as: "posts", hooks: true}\<close>.\<close>

definition postsOptions :: props where
  "postsOptions = fmupd ''as'' (JStr ''posts'') fmempty"

definition postsOptionsWithHooks :: props where
  "postsOptionsWithHooks = fmupd ''hooks'' (JBool True) (fmupd ''as'' (JStr ''posts'') fmempty)"

text \<open>What \<open>normalizeBaseAssociationOptions\<close> makes of these options for \<open>HasMany\<close>.\<close>

definition normalizedPosts :: props where
  "normalizedPosts =
     fmupd ''name'' (JObj (fmupd ''singular'' (JStr ''post'') (fmupd ''plural'' (JStr ''posts'') fmempty)))
       (fmupd ''as'' (JStr ''posts'')
         (fmupd ''hooks'' (JBool False)
           (fmupd ''foreignKey'' (JObj fmempty) postsOptions)))"

definition normalizedPostsWithHooks :: props where
  "normalizedPostsWithHooks =
     fmupd ''name'' (JObj (fmupd ''singular'' (JStr ''post'') (fmupd ''plural'' (JStr ''posts'') fmempty)))
       (fmupd ''as'' (JStr ''posts'')
         (fmupd ''hooks'' (JBool True)
           (fmupd ''foreignKey'' (JObj fmempty) postsOptionsWithHooks)))"

text \<open>The heap once \<open>User.hasMany(Post, {as: "posts"})\<close> has built association 10, for a
  declaration made on behalf of \<open>parent\<close>.\<close>

definition declared :: "nat option \<Rightarrow> world" where
  "declared parent = snd (newAssociation 10 hasMany 0 1 parent normalizedPosts schema)"


text \<open>The heap once the hook \<open>attributeHook\<close> has run before the association of
  \<open>User.hasMany(Post, {as: "posts", hooks: true})\<close>.\<close>

definition hooked :: world where
  "hooked = snd (attributeHook ''beforeAssociate''
       \<lparr>ctx_source = 0, ctx_target = 1, ctx_type = hasMany, ctx_association = None,
        ctx_sequelize = sequelize (models schema 0)\<rparr> normalizedPostsWithHooks schema)"


section \<open>Properties of the JavaScript values\<close>

lemma js_get_fmupd: "js_get (fmupd k v m) k' = (if k = k' then v else js_get m k')"
  by (simp add: js_get_def)

lemma js_get_fmempty: "js_get fmempty k = JUndefined"
  by (simp add: js_get_def)

lemma fmlookup_removeUndefined:
  "fmlookup (removeUndefined m) k = (if fmlookup m k = Some JUndefined then None else fmlookup m k)"
  by (simp add: removeUndefined_def)

lemma js_get_removeUndefined: "js_get (removeUndefined m) k = js_get m k"
  by (simp add: js_get_def fmlookup_removeUndefined)

section \<open>Foreign-key normalization: properties\<close>

lemma normalizeForeignKeyOptions_string:
  "normalizeForeignKeyOptions (JStr s) = fmupd ''name'' (JStr s) fmempty"
  by (simp add: normalizeForeignKeyOptions_def)

lemma normalizeForeignKeyOptions_lookup:
  "\<forall>s. fk \<noteq> JStr s \<Longrightarrow>
   fmlookup (normalizeForeignKeyOptions fk) k =
     (if k = ''fieldName'' then None
      else if k = ''name'' then
        (if coalesce (opt_get fk ''name'') (opt_get fk ''fieldName'') = JUndefined then None
         else Some (coalesce (opt_get fk ''name'') (opt_get fk ''fieldName'')))
      else if fmlookup (spread fk) k = Some JUndefined then None else fmlookup (spread fk) k)"
  by (cases fk) (simp_all add: normalizeForeignKeyOptions_def fmlookup_removeUndefined)

lemma normalizeForeignKeyOptions_roundtrip:
  "normalizeForeignKeyOptions (JObj (fmupd ''name'' (JStr s) fmempty)) = normalizeForeignKeyOptions (JStr s)"
  by (rule fmap_ext)
     (simp add: normalizeForeignKeyOptions_lookup normalizeForeignKeyOptions_string
        coalesce_def nullish_def opt_get_def spread_def js_get_def)

text \<open>
  C7, as stated: the normalized foreign-key options always have a \<open>name\<close> key. The claim fails
  for an absent foreign key (\<open>foreignKey\<close> is optional, and \<open>normalizeBaseAssociationOptions\<close>
  passes \<open>options.foreignKey\<close> as it is): \<open>name\<close> is then \<open>undefined\<close> and
  \<open>removeUndefined\<close> drops it, so the result is the empty object.
\<close>

theorem normalizeForeignKeyOptions_name_absent:
  "''name'' |\<notin>| fmdom (normalizeForeignKeyOptions JUndefined)
   \<and> normalizeForeignKeyOptions JUndefined = fmempty"
proof -
  have "fmlookup (normalizeForeignKeyOptions JUndefined) k = None" for k
    by (simp add: normalizeForeignKeyOptions_lookup coalesce_def nullish_def opt_get_def spread_def)
  then have "normalizeForeignKeyOptions JUndefined = fmempty"
    by (intro fmap_ext) simp
  then show ?thesis by simp
qed

text \<open>
  C7, amended: a string \<open>s\<close> normalizes to \<open>{name: s}\<close>; the string \<open>s\<close> and the object
  \<open>{name: s}\<close> normalize to equal objects; the result never has a \<open>fieldName\<close> key; for an
  input that is not a string the \<open>name\<close> of the result is \<open>name ?? fieldName\<close> of the
  input; and the \<open>name\<close> key is present exactly when the input is a string or that value is
  not \<open>undefined\<close>.
\<close>

theorem normalizeForeignKeyOptions_normal_form:
  "normalizeForeignKeyOptions (JStr s) = fmupd ''name'' (JStr s) fmempty
   \<and> isEqual (normalizeForeignKeyOptions (JStr s)) (normalizeForeignKeyOptions (JObj (fmupd ''name'' (JStr s) fmempty)))
   \<and> ''fieldName'' |\<notin>| fmdom (normalizeForeignKeyOptions fk)
   \<and> js_get (normalizeForeignKeyOptions fk) ''name'' =
       (case fk of JStr n \<Rightarrow> JStr n | _ \<Rightarrow> coalesce (opt_get fk ''name'') (opt_get fk ''fieldName''))
   \<and> (''name'' |\<in>| fmdom (normalizeForeignKeyOptions fk)) =
       ((\<exists>n. fk = JStr n) \<or> coalesce (opt_get fk ''name'') (opt_get fk ''fieldName'') \<noteq> JUndefined)"
proof (cases "\<exists>n. fk = JStr n")
  case True
  then show ?thesis
    by (auto simp: normalizeForeignKeyOptions_string normalizeForeignKeyOptions_roundtrip isEqual_def js_get_def)
next
  case False
  then have look: "fmlookup (normalizeForeignKeyOptions fk) k =
     (if k = ''fieldName'' then None
      else if k = ''name'' then
        (if coalesce (opt_get fk ''name'') (opt_get fk ''fieldName'') = JUndefined then None
         else Some (coalesce (opt_get fk ''name'') (opt_get fk ''fieldName'')))
      else if fmlookup (spread fk) k = Some JUndefined then None else fmlookup (spread fk) k)" for k
    by (simp add: normalizeForeignKeyOptions_lookup)
  have a: "''fieldName'' |\<notin>| fmdom (normalizeForeignKeyOptions fk)"
    by (simp add: fmdom_notI look)
  have b: "js_get (normalizeForeignKeyOptions fk) ''name'' = coalesce (opt_get fk ''name'') (opt_get fk ''fieldName'')"
    by (simp add: js_get_def look)
  have c: "(''name'' |\<in>| fmdom (normalizeForeignKeyOptions fk)) =
       (coalesce (opt_get fk ''name'') (opt_get fk ''fieldName'') \<noteq> JUndefined)"
    by (simp add: fmlookup_dom_iff look)
  from False have d: "(case fk of JStr n \<Rightarrow> JStr n | _ \<Rightarrow> coalesce (opt_get fk ''name'') (opt_get fk ''fieldName''))
      = coalesce (opt_get fk ''name'') (opt_get fk ''fieldName'')"
    by (cases fk) simp_all
  show ?thesis
    using a b c d False
    by (simp add: normalizeForeignKeyOptions_string normalizeForeignKeyOptions_roundtrip isEqual_def)
qed

theorem normalizeForeignKeyOptions_normal_form_witness:
  "normalizeForeignKeyOptions (JStr ''ownerId'') = fmupd ''name'' (JStr ''ownerId'') fmempty
   \<and> isEqual (normalizeForeignKeyOptions (JStr ''ownerId''))
        (normalizeForeignKeyOptions (JObj (fmupd ''name'' (JStr ''ownerId'') fmempty)))
   \<and> ''fieldName'' |\<notin>| fmdom (normalizeForeignKeyOptions (JObj (fmupd ''fieldName'' (JStr ''owner_id'') fmempty)))
   \<and> js_get (normalizeForeignKeyOptions (JObj (fmupd ''fieldName'' (JStr ''owner_id'') fmempty))) ''name''
       = JStr ''owner_id''
   \<and> ''name'' |\<in>| fmdom (normalizeForeignKeyOptions (JObj (fmupd ''fieldName'' (JStr ''owner_id'') fmempty)))"
proof -
  have "coalesce (opt_get (JObj (fmupd ''fieldName'' (JStr ''owner_id'') fmempty)) ''name'')
          (opt_get (JObj (fmupd ''fieldName'' (JStr ''owner_id'') fmempty)) ''fieldName'') = JStr ''owner_id''"
    by (simp add: coalesce_def nullish_def opt_get_def js_get_def)
  with normalizeForeignKeyOptions_normal_form
    [of "''ownerId''" "JObj (fmupd ''fieldName'' (JStr ''owner_id'') fmempty)"]
  show ?thesis by auto
qed

section \<open>Equivalence classifier: properties\<close>

lemma omit_eq_iff: "(omit a k = omit b k) = (\<forall>k'. k' \<noteq> k \<longrightarrow> fmlookup a k' = fmlookup b k')"
proof
  assume h: "omit a k = omit b k"
  show "\<forall>k'. k' \<noteq> k \<longrightarrow> fmlookup a k' = fmlookup b k'"
  proof (intro allI impI)
    fix k' assume "k' \<noteq> k"
    from h have "fmlookup (omit a k) k' = fmlookup (omit b k) k'" by simp
    with \<open>k' \<noteq> k\<close> show "fmlookup a k' = fmlookup b k'" by (simp add: omit_def)
  qed
next
  assume "\<forall>k'. k' \<noteq> k \<longrightarrow> fmlookup a k' = fmlookup b k'"
  then show "omit a k = omit b k"
    by (intro fmap_ext) (simp add: omit_def)
qed

text \<open>
  C3: the classifier returns the first status that matches, in the order different types,
  different targets (by \<open>isSameInitialModel\<close>, whatever that relation is), different options
  (some key other than \<open>inverse\<close> is present on one side only or holds different values),
  and otherwise none. The status does not depend on the \<open>inverse\<close> key of either side. The
  classifier is a function of the existing association's record, the new type, target and
  options: it takes no heap and returns none, since \<open>omit\<close> works on copies.
\<close>

theorem getAssociationsIncompatibilityStatus_first_match:
  "getAssociationsIncompatibilityStatus env existing newType newTarget newOptions =
     (if associationType existing \<noteq> class_name newType then Some DIFFERENT_TYPES
      else if \<not> isSameInitialModel env (assoc_target existing) newTarget then Some DIFFERENT_TARGETS
      else if \<exists>k. k \<noteq> ''inverse'' \<and> fmlookup (assoc_options existing) k \<noteq> fmlookup newOptions k
        then Some DIFFERENT_OPTIONS
      else None)
   \<and> getAssociationsIncompatibilityStatus env
        (existing\<lparr>assoc_options := fmupd ''inverse'' v (assoc_options existing)\<rparr>) newType newTarget
        (fmupd ''inverse'' v' newOptions)
      = getAssociationsIncompatibilityStatus env existing newType newTarget newOptions"
  by (auto simp: getAssociationsIncompatibilityStatus_def isEqual_def omit_eq_iff Let_def)

section \<open>Constraint deriver: properties\<close>

text \<open>The primary-key columns: for each primary-key attribute, its \<open>field\<close> when that is
  truthy, else its name. A primary key that is not an attribute is a \<open>TypeError\<close>.\<close>

lemma primaryKeyFields_columns:
  "\<forall>a\<in>set ks. a |\<in>| fmdom (attributes source) \<Longrightarrow>
   primaryKeyFields source ks =
     Inr (map (\<lambda>a. case fmlookup (attributes source) a of
                          Some attribute \<Rightarrow>
                            if truthy (js_get attribute ''field'') then js_get attribute ''field'' else JStr a
                        | None \<Rightarrow> JStr a) ks)"
  by (induction ks) (auto simp: js_or_def fmlookup_dom_iff)

lemma primaryKeyFields_missing:
  "\<not> (\<forall>a\<in>set ks. a |\<in>| fmdom (attributes source)) \<Longrightarrow> primaryKeyFields source ks = Inl TypeError"
proof (induction ks)
  case Nil
  then show ?case by simp
next
  case (Cons k ks)
  show ?case
  proof (cases "fmlookup (attributes source) k")
    case None
    then show ?thesis by simp
  next
    case (Some attribute)
    then have "k |\<in>| fmdom (attributes source)" by (simp add: fmlookup_dom_iff)
    with Cons.prems have "\<not> (\<forall>a\<in>set ks. a |\<in>| fmdom (attributes source))" by simp
    with Cons.IH Some show ?thesis by simp
  qed
qed

text \<open>
  C8: with \<open>foreignKeyConstraints === false\<close> the attribute is returned as it was. Otherwise
  the primary-key columns of the source are, for each of its primary-key attributes, the
  \<open>field\<close> of the attribute when it is truthy and the attribute name when it is not;
  \<open>references\<close> (the table of the source, and the key, or the first primary-key column when
  the key is empty) is set exactly when there is a single primary-key column or the key is not
  among the columns; then \<open>onDelete\<close> is the value the attribute already had if it is
  neither \<open>undefined\<close> nor \<open>null\<close>, else \<open>SET NULL\<close> unless \<open>allowNull\<close> is
  \<open>false\<close>, in which case \<open>CASCADE\<close>; \<open>onUpdate\<close> is the value it had, else
  \<open>CASCADE\<close>; every other key is untouched. When \<open>references\<close> is not set the attribute
  is returned as it was. A primary key that is not an attribute of the source makes the call
  throw.
\<close>

theorem addForeignKeyConstraints_policy:
  "(js_get options ''foreignKeyConstraints'' = JBool False \<longrightarrow>
      addForeignKeyConstraints newAttribute source options key = Inr newAttribute)
   \<and> (js_get options ''foreignKeyConstraints'' \<noteq> JBool False
        \<and> (\<forall>a\<in>set (primaryKeys source). a |\<in>| fmdom (attributes source))
        \<and> pks = map (\<lambda>a. case fmlookup (attributes source) a of
                          Some attribute \<Rightarrow>
                            if truthy (js_get attribute ''field'') then js_get attribute ''field'' else JStr a
                        | None \<Rightarrow> JStr a) (primaryKeys source) \<longrightarrow>
        (if length pks = 1 \<or> JStr key \<notin> set pks
         then \<exists>a. addForeignKeyConstraints newAttribute source options key = Inr a
              \<and> js_get a ''references'' =
                  JObj (fmupd ''key'' (if key \<noteq> [] then JStr key
                                       else (case pks of [] \<Rightarrow> JUndefined | p # ps \<Rightarrow> p))
                         (fmupd ''model'' (tableName source) fmempty))
              \<and> js_get a ''onDelete'' =
                  (if js_get newAttribute ''onDelete'' = JUndefined \<or> js_get newAttribute ''onDelete'' = JNull
                   then (if js_get newAttribute ''allowNull'' \<noteq> JBool False then JStr ''SET NULL'' else JStr ''CASCADE'')
                   else js_get newAttribute ''onDelete'')
              \<and> js_get a ''onUpdate'' =
                  (if js_get newAttribute ''onUpdate'' = JUndefined \<or> js_get newAttribute ''onUpdate'' = JNull
                   then JStr ''CASCADE''
                   else js_get newAttribute ''onUpdate'')
              \<and> (\<forall>k. k \<noteq> ''references'' \<and> k \<noteq> ''onDelete'' \<and> k \<noteq> ''onUpdate''
                      \<longrightarrow> fmlookup a k = fmlookup newAttribute k)
         else addForeignKeyConstraints newAttribute source options key = Inr newAttribute))
   \<and> (js_get options ''foreignKeyConstraints'' \<noteq> JBool False
        \<and> \<not> (\<forall>a\<in>set (primaryKeys source). a |\<in>| fmdom (attributes source)) \<longrightarrow>
        addForeignKeyConstraints newAttribute source options key = Inl TypeError)"
proof (intro conjI impI)
  assume "js_get options ''foreignKeyConstraints'' = JBool False"
  then show "addForeignKeyConstraints newAttribute source options key = Inr newAttribute"
    by (simp add: addForeignKeyConstraints_def)
next
  assume h: "js_get options ''foreignKeyConstraints'' \<noteq> JBool False
        \<and> (\<forall>a\<in>set (primaryKeys source). a |\<in>| fmdom (attributes source))
        \<and> pks = map (\<lambda>a. case fmlookup (attributes source) a of
                          Some attribute \<Rightarrow>
                            if truthy (js_get attribute ''field'') then js_get attribute ''field'' else JStr a
                        | None \<Rightarrow> JStr a) (primaryKeys source)"
  then have c: "primaryKeyFields source (primaryKeys source) = Inr pks"
    by (simp add: primaryKeyFields_columns)
  from h have on: "js_get options ''foreignKeyConstraints'' \<noteq> JBool False"
    by simp
  from on c show "if length pks = 1 \<or> JStr key \<notin> set pks
         then \<exists>a. addForeignKeyConstraints newAttribute source options key = Inr a
              \<and> js_get a ''references'' =
                  JObj (fmupd ''key'' (if key \<noteq> [] then JStr key
                                       else (case pks of [] \<Rightarrow> JUndefined | p # ps \<Rightarrow> p))
                         (fmupd ''model'' (tableName source) fmempty))
              \<and> js_get a ''onDelete'' =
                  (if js_get newAttribute ''onDelete'' = JUndefined \<or> js_get newAttribute ''onDelete'' = JNull
                   then (if js_get newAttribute ''allowNull'' \<noteq> JBool False then JStr ''SET NULL'' else JStr ''CASCADE'')
                   else js_get newAttribute ''onDelete'')
              \<and> js_get a ''onUpdate'' =
                  (if js_get newAttribute ''onUpdate'' = JUndefined \<or> js_get newAttribute ''onUpdate'' = JNull
                   then JStr ''CASCADE''
                   else js_get newAttribute ''onUpdate'')
              \<and> (\<forall>k. k \<noteq> ''references'' \<and> k \<noteq> ''onDelete'' \<and> k \<noteq> ''onUpdate''
                      \<longrightarrow> fmlookup a k = fmlookup newAttribute k)
         else addForeignKeyConstraints newAttribute source options key = Inr newAttribute"
  proof (cases "length pks = 1 \<or> JStr key \<notin> set pks")
    case False
    with on c show ?thesis
      by (simp add: addForeignKeyConstraints_def)
  next
    case True
    let ?a1 = "fmupd ''references''
                 (JObj (fmupd ''key'' (js_or (JStr key) (case pks of [] \<Rightarrow> JUndefined | p # ps \<Rightarrow> p))
                         (fmupd ''model'' (tableName source) fmempty)))
                 newAttribute"
    let ?a2 = "fmupd ''onDelete''
                 (coalesce (js_get ?a1 ''onDelete'')
                    (if js_get ?a1 ''allowNull'' \<noteq> JBool False then JStr ''SET NULL'' else JStr ''CASCADE''))
                 ?a1"
    let ?a3 = "fmupd ''onUpdate'' (coalesce (js_get ?a2 ''onUpdate'') (JStr ''CASCADE'')) ?a2"
    have r: "addForeignKeyConstraints newAttribute source options key = Inr ?a3"
      using on c True by (simp add: addForeignKeyConstraints_def Let_def)
    have k: "js_or (JStr key) x = (if key \<noteq> [] then JStr key else x)" for x
      by (simp add: js_or_def)
    have n: "coalesce v d = (if v = JUndefined \<or> v = JNull then d else v)" for v d
      by (simp add: coalesce_def nullish_def)
    have 1: "js_get ?a3 ''references'' =
                  JObj (fmupd ''key'' (if key \<noteq> [] then JStr key
                                       else (case pks of [] \<Rightarrow> JUndefined | p # ps \<Rightarrow> p))
                         (fmupd ''model'' (tableName source) fmempty))"
      by (simp add: js_get_fmupd k)
    have 2: "js_get ?a3 ''onDelete'' =
                  (if js_get newAttribute ''onDelete'' = JUndefined \<or> js_get newAttribute ''onDelete'' = JNull
                   then (if js_get newAttribute ''allowNull'' \<noteq> JBool False then JStr ''SET NULL'' else JStr ''CASCADE'')
                   else js_get newAttribute ''onDelete'')"
      by (simp add: js_get_fmupd n)
    have 3: "js_get ?a3 ''onUpdate'' =
                  (if js_get newAttribute ''onUpdate'' = JUndefined \<or> js_get newAttribute ''onUpdate'' = JNull
                   then JStr ''CASCADE''
                   else js_get newAttribute ''onUpdate'')"
      by (simp add: js_get_fmupd n)
    have 4: "\<forall>k. k \<noteq> ''references'' \<and> k \<noteq> ''onDelete'' \<and> k \<noteq> ''onUpdate''
                      \<longrightarrow> fmlookup ?a3 k = fmlookup newAttribute k"
      by simp
    from r 1 2 3 4 have "\<exists>a. addForeignKeyConstraints newAttribute source options key = Inr a
              \<and> js_get a ''references'' =
                  JObj (fmupd ''key'' (if key \<noteq> [] then JStr key
                                       else (case pks of [] \<Rightarrow> JUndefined | p # ps \<Rightarrow> p))
                         (fmupd ''model'' (tableName source) fmempty))
              \<and> js_get a ''onDelete'' =
                  (if js_get newAttribute ''onDelete'' = JUndefined \<or> js_get newAttribute ''onDelete'' = JNull
                   then (if js_get newAttribute ''allowNull'' \<noteq> JBool False then JStr ''SET NULL'' else JStr ''CASCADE'')
                   else js_get newAttribute ''onDelete'')
              \<and> js_get a ''onUpdate'' =
                  (if js_get newAttribute ''onUpdate'' = JUndefined \<or> js_get newAttribute ''onUpdate'' = JNull
                   then JStr ''CASCADE''
                   else js_get newAttribute ''onUpdate'')
              \<and> (\<forall>k. k \<noteq> ''references'' \<and> k \<noteq> ''onDelete'' \<and> k \<noteq> ''onUpdate''
                      \<longrightarrow> fmlookup a k = fmlookup newAttribute k)"
      by (intro exI[of _ ?a3] conjI)
    with True show ?thesis
      by (simp only: if_True)
  qed
next
  assume h: "js_get options ''foreignKeyConstraints'' \<noteq> JBool False
        \<and> \<not> (\<forall>a\<in>set (primaryKeys source). a |\<in>| fmdom (attributes source))"
  then have "primaryKeyFields source (primaryKeys source) = Inl TypeError"
    by (simp add: primaryKeyFields_missing)
  with h show "addForeignKeyConstraints newAttribute source options key = Inl TypeError"
    by (simp add: addForeignKeyConstraints_def)
qed

section \<open>Accessor injector: properties\<close>

text \<open>The prototype after the loop: an own property of the prototype is what it was; a name
  that was free holds the closure of the first listed kind that resolves to that name.\<close>

lemma mixinMethods_lookup:
  "fmlookup (mixinMethods inh a acc proto methods aliases) n =
     (case fmlookup proto n of
        Some p \<Rightarrow> Some p
      | None \<Rightarrow> (case find (\<lambda>m. targetMethodName inh acc m = n) methods of
                   None \<Rightarrow> None
                 | Some m \<Rightarrow> Some (mixinDescriptor a (realMethod inh aliases m))))"
  unfolding mixinMethods_def
proof (induction methods arbitrary: proto)
  case Nil
  then show ?case by (simp split: option.splits)
next
  case (Cons m ms)
  show ?case
  proof (cases "targetMethodName inh acc m |\<in>| fmdom proto")
    case True
    then have "mixinMethod inh a acc aliases proto m = proto" by (simp add: mixinMethod_def)
    with True Cons show ?thesis by (auto split: option.splits simp: fmlookup_dom_iff)
  next
    case False
    then have "mixinMethod inh a acc aliases proto m
       = fmupd (targetMethodName inh acc m) (mixinDescriptor a (realMethod inh aliases m)) proto"
      by (simp add: mixinMethod_def)
    with False Cons show ?thesis by (auto split: option.splits simp: fmlookup_dom_iff)
  qed
qed

lemma find_distinct:
  "distinct (map f xs) \<Longrightarrow> m \<in> set xs \<Longrightarrow> find (\<lambda>x. f x = f m) xs = Some m"
  by (induction xs) auto

lemma find_member:
  "m \<in> set xs \<Longrightarrow> \<exists>m'. find (\<lambda>x. f x = f m) xs = Some m' \<and> m' \<in> set xs \<and> f m' = f m"
  by (induction xs) auto

text \<open>
  C9: an own property that the prototype already has under an accessor name is still there,
  unchanged, after the injection. The accessor name of a kind is what \<open>accessors[kind]\<close>
  reads: the accessor of the kind, else an inherited member, else \<open>"undefined"\<close>. For a
  listed kind whose accessor name was free, the prototype now holds under that name the
  descriptor installed for the first listed kind with that accessor name, which is the kind
  itself when the listed kinds have distinct accessor names. No other name is added. The
  installed property is not enumerable (nor writable, nor configurable), and calling it on a
  receiver with some arguments calls a method of the association with the receiver followed by
  those arguments: the method named by the kind when no alias map is supplied, and otherwise
  the method that \<open>aliases[kind]\<close> names, the kind itself when that is absent or empty.
\<close>

theorem mixinMethods_never_shadows:
  "(fmlookup proto n = Some p \<longrightarrow> fmlookup (mixinMethods inh a acc proto methods aliases) n = Some p)
   \<and> (m \<in> set methods \<and> targetMethodName inh acc m |\<notin>| fmdom proto \<longrightarrow>
        (\<exists>m'. find (\<lambda>x. targetMethodName inh acc x = targetMethodName inh acc m) methods = Some m'
           \<and> fmlookup (mixinMethods inh a acc proto methods aliases) (targetMethodName inh acc m)
               = Some (mixinDescriptor a (realMethod inh aliases m'))))
   \<and> (distinct (map (targetMethodName inh acc) methods) \<and> m \<in> set methods
        \<and> fmlookup acc m = Some nm \<and> nm |\<notin>| fmdom proto \<longrightarrow>
        fmlookup (mixinMethods inh a acc proto methods aliases) nm
          = Some (mixinDescriptor a
               (case aliases of
                  None \<Rightarrow> m
                | Some al \<Rightarrow> (case fmlookup al m of
                               Some r' \<Rightarrow> if r' = [] then m else r'
                             | None \<Rightarrow> (case fmlookup inh m of Some k \<Rightarrow> k | None \<Rightarrow> m)))))
   \<and> (fmlookup proto n = None \<and> n \<notin> targetMethodName inh acc ` set methods \<longrightarrow>
        fmlookup (mixinMethods inh a acc proto methods aliases) n = None)
   \<and> targetMethodName inh acc m =
        (case fmlookup acc m of
           Some nm' \<Rightarrow> nm'
         | None \<Rightarrow> (case fmlookup inh m of Some k \<Rightarrow> k | None \<Rightarrow> ''undefined''))
   \<and> realMethod inh aliases m =
        (case aliases of
                  None \<Rightarrow> m
                | Some al \<Rightarrow> (case fmlookup al m of
                               Some r' \<Rightarrow> if r' = [] then m else r'
                             | None \<Rightarrow> (case fmlookup inh m of Some k \<Rightarrow> k | None \<Rightarrow> m)))
   \<and> \<not> enumerable (mixinDescriptor a r :: ('f, 'a) property_descriptor)
   \<and> \<not> writable (mixinDescriptor a r :: ('f, 'a) property_descriptor)
   \<and> \<not> configurable (mixinDescriptor a r :: ('f, 'a) property_descriptor)
   \<and> call_function impl user (prop_value (mixinDescriptor a r :: ('f, 'a) property_descriptor)) this params
       = impl a r (this # params)"
proof (intro conjI impI)
  assume "fmlookup proto n = Some p"
  then show "fmlookup (mixinMethods inh a acc proto methods aliases) n = Some p"
    by (simp add: mixinMethods_lookup)
next
  assume h: "m \<in> set methods \<and> targetMethodName inh acc m |\<notin>| fmdom proto"
  then obtain m' where "find (\<lambda>x. targetMethodName inh acc x = targetMethodName inh acc m) methods = Some m'"
    using find_member[of m methods "targetMethodName inh acc"] by blast
  moreover from h have "fmlookup proto (targetMethodName inh acc m) = None"
    by (simp add: fmdom_notD)
  ultimately show "\<exists>m'. find (\<lambda>x. targetMethodName inh acc x = targetMethodName inh acc m) methods = Some m'
           \<and> fmlookup (mixinMethods inh a acc proto methods aliases) (targetMethodName inh acc m)
               = Some (mixinDescriptor a (realMethod inh aliases m'))"
    by (simp add: mixinMethods_lookup)
next
  assume h: "distinct (map (targetMethodName inh acc) methods) \<and> m \<in> set methods
        \<and> fmlookup acc m = Some nm \<and> nm |\<notin>| fmdom proto"
  then have t: "targetMethodName inh acc m = nm"
    by (simp add: targetMethodName_def)
  from h have "find (\<lambda>x. targetMethodName inh acc x = targetMethodName inh acc m) methods = Some m"
    by (simp add: find_distinct)
  with t have f: "find (\<lambda>x. targetMethodName inh acc x = nm) methods = Some m"
    by simp
  from h have "fmlookup proto nm = None"
    by (simp add: fmdom_notD)
  with f have "fmlookup (mixinMethods inh a acc proto methods aliases) nm
          = Some (mixinDescriptor a (realMethod inh aliases m))"
    by (simp add: mixinMethods_lookup)
  then show "fmlookup (mixinMethods inh a acc proto methods aliases) nm
          = Some (mixinDescriptor a
               (case aliases of
                  None \<Rightarrow> m
                | Some al \<Rightarrow> (case fmlookup al m of
                               Some r' \<Rightarrow> if r' = [] then m else r'
                             | None \<Rightarrow> (case fmlookup inh m of Some k \<Rightarrow> k | None \<Rightarrow> m))))"
    by (simp add: realMethod_def)
next
  assume h: "fmlookup proto n = None \<and> n \<notin> targetMethodName inh acc ` set methods"
  then have "find (\<lambda>x. targetMethodName inh acc x = n) methods = None"
    by (auto simp: find_None_iff)
  with h show "fmlookup (mixinMethods inh a acc proto methods aliases) n = None"
    by (simp add: mixinMethods_lookup)
next
  show "targetMethodName inh acc m =
        (case fmlookup acc m of
           Some nm' \<Rightarrow> nm'
         | None \<Rightarrow> (case fmlookup inh m of Some k \<Rightarrow> k | None \<Rightarrow> ''undefined''))"
    by (simp add: targetMethodName_def)
next
  show "realMethod inh aliases m =
        (case aliases of
                  None \<Rightarrow> m
                | Some al \<Rightarrow> (case fmlookup al m of
                               Some r' \<Rightarrow> if r' = [] then m else r'
                             | None \<Rightarrow> (case fmlookup inh m of Some k \<Rightarrow> k | None \<Rightarrow> m)))"
    by (simp add: realMethod_def)
next
  show "\<not> enumerable (mixinDescriptor a r :: ('f, 'a) property_descriptor)"
    by (simp add: mixinDescriptor_def)
next
  show "\<not> writable (mixinDescriptor a r :: ('f, 'a) property_descriptor)"
    by (simp add: mixinDescriptor_def)
next
  show "\<not> configurable (mixinDescriptor a r :: ('f, 'a) property_descriptor)"
    by (simp add: mixinDescriptor_def)
next
  show "call_function impl user (prop_value (mixinDescriptor a r :: ('f, 'a) property_descriptor)) this params
       = impl a r (this # params)"
    by (simp add: mixinDescriptor_def)
qed

section \<open>Naming normalizer: properties\<close>

text \<open>
  C6, amended: for options without the renamed keys whose \<open>as\<close> is a non-empty string, the
  normalization succeeds, the string is the alias (the registry key), and the name pair is: for
  a multi-valued kind, \<open>plural\<close> the given string itself and \<open>singular\<close> its
  singularization; for a single-valued kind, \<open>singular\<close> the given string itself and
  \<open>plural\<close> its pluralization.
\<close>

theorem normalizeBaseAssociationOptions_string_alias:
  assumes "js_get options ''as'' = JStr s" and "s \<noteq> []"
    and "''onDelete'' |\<notin>| fmdom options" and "''onUpdate'' |\<notin>| fmdom options"
    and "''constraints'' |\<notin>| fmdom options" and "''foreignKeyConstraint'' |\<notin>| fmdom options"
  shows "\<exists>r. normalizeBaseAssociationOptions env type options source target w = Inr r
     \<and> js_get r ''as'' = JStr s \<and> alias_of r = s
     \<and> opt_get (js_get r ''name'') ''plural'' = JStr (if isMultiAssociation type then s else pluralize env s)
     \<and> opt_get (js_get r ''name'') ''singular'' = JStr (if isMultiAssociation type then singularize env s else s)"
  using assms
  by (simp add: normalizeBaseAssociationOptions_def resolveAlias_def js_get_removeUndefined js_get_fmupd
        alias_of_def opt_get_def)

section \<open>Declaration orchestrator: properties\<close>

text \<open>Once the target is a model, both models are initialised, the options are normalized and the
  alias collides with no attribute, what remains is the uniqueness check and the second half.\<close>

lemma defineAssociation_checked:
  assumes "isModelStatic env target"
    and "sequelize (models w source) \<noteq> None" and "sequelize (models w target) \<noteq> None"
    and "normalizeOptions type options source target w = Inr nopts"
    and "alias_of nopts |\<notin>| fmdom (attributes (models w source))"
  shows "defineAssociation env type source target options parent normalizeOptions construct runSync w =
     (case assertAssociationUnique env type source target nopts parent w of
        Inl e \<Rightarrow> (Inl e, w)
      | Inr u \<Rightarrow> associate type source target construct runSync nopts w)"
  using assms
  by (auto simp: defineAssociation_def assertAssociationModelIsDefined_def checkNamingCollision_def)

text \<open>With the alias occupied, the uniqueness check is a three-way choice.\<close>

lemma assertAssociationUnique_occupied:
  assumes "fmlookup (associations (models w source)) (alias_of nopts) = Some ex"
  shows "assertAssociationUnique env type source target nopts parent w =
     (if getAssociationsIncompatibilityStatus env (assocs w ex) type target nopts = None
          \<and> (parent \<noteq> None \<or> parentAssociation (assocs w ex) \<noteq> None)
      then Inr ()
      else if parent = None \<and> rootAssociation (assocs w ex) = ex
        then Inl (AssociationError_SameName (alias_of nopts) (model_name (models w source)))
        else Inl (AssociationError_Incompatible (alias_of nopts)
                    (getAssociationsIncompatibilityStatus env (assocs w ex) type target nopts)))"
  using assms by (auto simp: assertAssociationUnique_def Let_def)

lemma associate_reuse_no_hooks:
  assumes "runHook runSync ''beforeAssociate''
             \<lparr>ctx_source = source, ctx_target = target, ctx_type = type, ctx_association = None,
              ctx_sequelize = sequelize (models w source)\<rparr> nopts w = (Inr nopts, w)"
    and "runHook runSync ''afterAssociate''
             \<lparr>ctx_source = source, ctx_target = target, ctx_type = type, ctx_association = Some ex,
              ctx_sequelize = sequelize (models w source)\<rparr> nopts w = (Inr nopts, w)"
    and "fmlookup (associations (models w source)) (alias_of nopts) = Some ex"
    and "alias_of nopts |\<notin>| fmdom (attributes (models w source))"
  shows "associate type source target construct runSync nopts w = (Inr ex, w)"
  using assms
  by (simp add: associate_def constructOrReuse_def checkNamingCollision_def)

lemma defineAssociation_Inr_static:
  "defineAssociation env type source target options parent normalizeOptions construct runSync w0 = (Inr a, w)
   \<Longrightarrow> isModelStatic env target"
  by (auto simp: defineAssociation_def split: if_splits)



lemma associate_frame:
  assumes "\<forall>ev c o' v. snd (runSync ev c o' v) = v" and "\<forall>o' v. snd (construct o' v) = v"
  shows "snd (associate type source target construct runSync nopts w) = w"
proof -
  have h: "runHook runSync ev c o' v = (r, v') \<Longrightarrow> v' = v" for ev c o' v r v'
    using assms(1) by (auto simp: runHook_def split: if_splits dest: arg_cong[where f=snd])
  have c: "constructOrReuse source construct o' v = (r, v') \<Longrightarrow> v' = v" for o' v r v'
    using assms(2)
    by (auto simp: constructOrReuse_def split: option.splits prod.splits sum.splits dest: arg_cong[where f=snd])
  show ?thesis
    by (auto simp: associate_def Let_def split: prod.splits sum.splits dest!: h c)
qed

text \<open>
  C2, amended: when an association is registered under the resolved alias, the uniqueness check
  passes exactly when the classification is none and, in addition, a parent is supplied or the
  registered association has a parent association; the call then goes on to reuse it, and
  returns it with the heap unchanged when hooks are not enabled. In every other case, which
  includes every classification other than none, the call fails with an \<open>AssociationError\<close>,
  the heap is unchanged and the builder has no part in the result.
\<close>

theorem assertAssociationUnique_reuse_policy:
  assumes "isModelStatic env target"
    and "sequelize (models w source) \<noteq> None" and "sequelize (models w target) \<noteq> None"
    and "normalizeOptions type options source target w = Inr nopts"
    and "alias_of nopts |\<notin>| fmdom (attributes (models w source))"
    and "fmlookup (associations (models w source)) (alias_of nopts) = Some ex"
  shows "if getAssociationsIncompatibilityStatus env (assocs w ex) type target nopts = None
            \<and> (parent \<noteq> None \<or> parentAssociation (assocs w ex) \<noteq> None)
         then assertAssociationUnique env type source target nopts parent w = Inr ()
              \<and> (\<not> truthy (js_get nopts ''hooks'') \<longrightarrow>
                   defineAssociation env type source target options parent normalizeOptions construct runSync w
                     = (Inr ex, w))
         else \<exists>e. isAssociationError e
              \<and> defineAssociation env type source target options parent normalizeOptions construct runSync w
                   = (Inl e, w)"
proof (cases "getAssociationsIncompatibilityStatus env (assocs w ex) type target nopts = None
            \<and> (parent \<noteq> None \<or> parentAssociation (assocs w ex) \<noteq> None)")
  case True
  then have u: "assertAssociationUnique env type source target nopts parent w = Inr ()"
    using assms(6) by (simp add: assertAssociationUnique_occupied)
  have "defineAssociation env type source target options parent normalizeOptions construct runSync w
          = (Inr ex, w)" if "\<not> truthy (js_get nopts ''hooks'')"
  proof -
    have "associate type source target construct runSync nopts w = (Inr ex, w)"
      using that assms(5,6) by (intro associate_reuse_no_hooks) (simp_all add: runHook_def)
    then show ?thesis
      using defineAssociation_checked[where normalizeOptions=normalizeOptions and nopts=nopts, OF assms(1-5)] u by simp
  qed
  with True u show ?thesis by simp
next
  case False
  then have "\<exists>e. isAssociationError e \<and> assertAssociationUnique env type source target nopts parent w = Inl e"
    using assms(6) by (simp add: assertAssociationUnique_occupied)
  then obtain e where e: "assertAssociationUnique env type source target nopts parent w = Inl e"
      and ae: "isAssociationError e"
    by blast
  then have "defineAssociation env type source target options parent normalizeOptions construct runSync w
                   = (Inl e, w)"
    using defineAssociation_checked[where normalizeOptions=normalizeOptions and nopts=nopts, OF assms(1-5)] by simp
  with ae False show ?thesis by auto
qed

text \<open>
  C1, amended: if a declaration has succeeded and, in the heap it left, the models are still
  initialised, the alias collides with no attribute, the returned association is registered
  under the alias and classifies as none against the same type, target and normalized options,
  then repeating the call returns that same association and leaves the heap, hence the
  registry and its size, unchanged, provided that a parent is supplied or the association has
  a parent association, and that the hooks, if enabled, return without changing the options or
  the heap.
\<close>

theorem defineAssociation_repeated_reuse:
  assumes first: "defineAssociation env type source target options parent normalizeOptions construct runSync w0
                    = (Inr a, w)"
    and "sequelize (models w source) \<noteq> None" and "sequelize (models w target) \<noteq> None"
    and "normalizeOptions type options source target w = Inr nopts"
    and "alias_of nopts |\<notin>| fmdom (attributes (models w source))"
    and "fmlookup (associations (models w source)) (alias_of nopts) = Some a"
    and "getAssociationsIncompatibilityStatus env (assocs w a) type target nopts = None"
    and "parent \<noteq> None \<or> parentAssociation (assocs w a) \<noteq> None"
    and "runHook runSync ''beforeAssociate''
             \<lparr>ctx_source = source, ctx_target = target, ctx_type = type, ctx_association = None,
              ctx_sequelize = sequelize (models w source)\<rparr> nopts w = (Inr nopts, w)"
    and "runHook runSync ''afterAssociate''
             \<lparr>ctx_source = source, ctx_target = target, ctx_type = type, ctx_association = Some a,
              ctx_sequelize = sequelize (models w source)\<rparr> nopts w = (Inr nopts, w)"
  shows "defineAssociation env type source target options parent normalizeOptions construct runSync w
           = (Inr a, w)"
proof -
  have st: "isModelStatic env target"
    using first by (rule defineAssociation_Inr_static)
  have u: "assertAssociationUnique env type source target nopts parent w = Inr ()"
    using assms(6,7,8) by (simp add: assertAssociationUnique_occupied)
  have "associate type source target construct runSync nopts w = (Inr a, w)"
    using assms(9,10,6,5) by (rule associate_reuse_no_hooks)
  then show ?thesis
    using defineAssociation_checked[where normalizeOptions=normalizeOptions and nopts=nopts, OF st assms(2-5)] u
    by simp
qed

lemma associate_unfold:
  assumes "runHook runSync ''beforeAssociate''
             \<lparr>ctx_source = source, ctx_target = target, ctx_type = type, ctx_association = None,
              ctx_sequelize = sequelize (models w source)\<rparr> nopts w = (Inr o1, w1)"
    and "constructOrReuse source construct o1 w1 = (Inr (a, o2), w2)"
    and "runHook runSync ''afterAssociate''
             \<lparr>ctx_source = source, ctx_target = target, ctx_type = type, ctx_association = Some a,
              ctx_sequelize = sequelize (models w source)\<rparr> o2 w2 = (Inr o3, w3)"
  shows "associate type source target construct runSync nopts w =
           (if alias_of o3 |\<in>| fmdom (attributes (models w3 source))
            then (Inl (NamingCollisionError (alias_of o3) (model_name (models w3 source))), w3)
            else (Inr a, w3))"
  using assms by (simp add: associate_def checkNamingCollision_def)

text \<open>
  C5: for a declaration that reaches the collision check (the target is a model, both models
  are initialised, the options are normalized), an alias that is an own key of the source's
  attributes makes the call fail with the naming-collision error, whatever the association
  type and whatever is registered, with the heap unchanged. The check runs a second time
  after the \<open>beforeAssociate\<close> hook, the construction or reuse and the \<open>afterAssociate\<close>
  hook, on the attributes and on the alias as they are then: the call returns the association
  only if that second check passes too, and fails with the naming-collision error otherwise,
  as when a hook has declared an attribute named like the alias.
\<close>

theorem defineAssociation_collision_checks:
  assumes "isModelStatic env target"
    and "sequelize (models w source) \<noteq> None" and "sequelize (models w target) \<noteq> None"
    and "normalizeOptions type options source target w = Inr nopts"
  shows "(alias_of nopts |\<in>| fmdom (attributes (models w source)) \<longrightarrow>
            defineAssociation env type source target options parent normalizeOptions construct runSync w
              = (Inl (NamingCollisionError (alias_of nopts) (model_name (models w source))), w))
       \<and> (alias_of nopts |\<notin>| fmdom (attributes (models w source))
          \<and> assertAssociationUnique env type source target nopts parent w = Inr ()
          \<and> runHook runSync ''beforeAssociate''
               \<lparr>ctx_source = source, ctx_target = target, ctx_type = type, ctx_association = None,
                ctx_sequelize = sequelize (models w source)\<rparr> nopts w = (Inr o1, w1)
          \<and> constructOrReuse source construct o1 w1 = (Inr (a, o2), w2)
          \<and> runHook runSync ''afterAssociate''
               \<lparr>ctx_source = source, ctx_target = target, ctx_type = type, ctx_association = Some a,
                ctx_sequelize = sequelize (models w source)\<rparr> o2 w2 = (Inr o3, w3)
          \<longrightarrow>
            defineAssociation env type source target options parent normalizeOptions construct runSync w
              = (if alias_of o3 |\<in>| fmdom (attributes (models w3 source))
                 then (Inl (NamingCollisionError (alias_of o3) (model_name (models w3 source))), w3)
                 else (Inr a, w3)))"
proof (intro conjI impI)
  assume "alias_of nopts |\<in>| fmdom (attributes (models w source))"
  then show "defineAssociation env type source target options parent normalizeOptions construct runSync w
              = (Inl (NamingCollisionError (alias_of nopts) (model_name (models w source))), w)"
    using assms by (auto simp: defineAssociation_def assertAssociationModelIsDefined_def checkNamingCollision_def)
next
  assume h: "alias_of nopts |\<notin>| fmdom (attributes (models w source))
          \<and> assertAssociationUnique env type source target nopts parent w = Inr ()
          \<and> runHook runSync ''beforeAssociate''
               \<lparr>ctx_source = source, ctx_target = target, ctx_type = type, ctx_association = None,
                ctx_sequelize = sequelize (models w source)\<rparr> nopts w = (Inr o1, w1)
          \<and> constructOrReuse source construct o1 w1 = (Inr (a, o2), w2)
          \<and> runHook runSync ''afterAssociate''
               \<lparr>ctx_source = source, ctx_target = target, ctx_type = type, ctx_association = Some a,
                ctx_sequelize = sequelize (models w source)\<rparr> o2 w2 = (Inr o3, w3)"
  then have "associate type source target construct runSync nopts w =
           (if alias_of o3 |\<in>| fmdom (attributes (models w3 source))
            then (Inl (NamingCollisionError (alias_of o3) (model_name (models w3 source))), w3)
            else (Inr a, w3))"
    by (simp add: associate_def checkNamingCollision_def)
  with h show "defineAssociation env type source target options parent normalizeOptions construct runSync w
              = (if alias_of o3 |\<in>| fmdom (attributes (models w3 source))
                 then (Inl (NamingCollisionError (alias_of o3) (model_name (models w3 source))), w3)
                 else (Inr a, w3))"
    using defineAssociation_checked[where normalizeOptions=normalizeOptions and nopts=nopts, OF assms(1-4)]
    by simp
qed


text \<open>
  C4, amended: the registry maps an alias to at most one association. A declaration that does
  not get past its checks (the target is not a model, a model is not initialised, the
  normalization fails, the alias collides with an attribute, the uniqueness check fails) fails
  with the heap, hence the registry, exactly as it was; in particular, declaring under an
  occupied alias an association whose classification is not none fails with an
  \<open>AssociationError\<close> and changes nothing. \<open>defineAssociation\<close> itself never writes the
  heap: if the hooks and the builder leave the heap as it is, so does the call. It therefore
  undoes nothing either, and after a failure of a hook, of the builder or of the second
  collision check the heap is as the hooks and the builder left it.
\<close>

theorem defineAssociation_failure_frame:
  "(\<not> (isModelStatic env target \<and> sequelize (models w source) \<noteq> None \<and> sequelize (models w target) \<noteq> None
        \<and> (\<exists>nopts. normalizeOptions type options source target w = Inr nopts
              \<and> alias_of nopts |\<notin>| fmdom (attributes (models w source))
              \<and> assertAssociationUnique env type source target nopts parent w = Inr ()))
     \<longrightarrow> (\<exists>e. defineAssociation env type source target options parent normalizeOptions construct runSync w
               = (Inl e, w)))
   \<and> (isModelStatic env target \<and> sequelize (models w source) \<noteq> None \<and> sequelize (models w target) \<noteq> None
        \<and> normalizeOptions type options source target w = Inr nopts
        \<and> alias_of nopts |\<notin>| fmdom (attributes (models w source))
        \<and> fmlookup (associations (models w source)) (alias_of nopts) = Some ex
        \<and> getAssociationsIncompatibilityStatus env (assocs w ex) type target nopts \<noteq> None
     \<longrightarrow> (\<exists>e. isAssociationError e
            \<and> defineAssociation env type source target options parent normalizeOptions construct runSync w
               = (Inl e, w)))
   \<and> ((\<forall>ev c o' v. snd (runSync ev c o' v) = v) \<and> (\<forall>o' v. snd (construct o' v) = v)
     \<longrightarrow> snd (defineAssociation env type source target options parent normalizeOptions construct runSync w) = w)"
proof (intro conjI impI)
  assume n: "\<not> (isModelStatic env target \<and> sequelize (models w source) \<noteq> None \<and> sequelize (models w target) \<noteq> None
        \<and> (\<exists>nopts. normalizeOptions type options source target w = Inr nopts
              \<and> alias_of nopts |\<notin>| fmdom (attributes (models w source))
              \<and> assertAssociationUnique env type source target nopts parent w = Inr ()))"
  show "\<exists>e. defineAssociation env type source target options parent normalizeOptions construct runSync w
               = (Inl e, w)"
  proof (cases "isModelStatic env target \<and> sequelize (models w source) \<noteq> None \<and> sequelize (models w target) \<noteq> None")
    case False
    then show ?thesis
      by (auto simp: defineAssociation_def assertAssociationModelIsDefined_def)
  next
    case True
    show ?thesis
    proof (cases "normalizeOptions type options source target w")
      case (Inl e)
      with True show ?thesis
        by (auto simp: defineAssociation_def assertAssociationModelIsDefined_def)
    next
      case (Inr nopts)
      show ?thesis
      proof (cases "alias_of nopts |\<in>| fmdom (attributes (models w source))")
        case c: True
        with True Inr show ?thesis
          by (auto simp: defineAssociation_def assertAssociationModelIsDefined_def checkNamingCollision_def)
      next
        case c: False
        with n True Inr obtain e where "assertAssociationUnique env type source target nopts parent w = Inl e"
          by (cases "assertAssociationUnique env type source target nopts parent w") auto
        with True Inr c show ?thesis
          by (auto simp: defineAssociation_def assertAssociationModelIsDefined_def checkNamingCollision_def)
      qed
    qed
  qed
next
  assume h: "isModelStatic env target \<and> sequelize (models w source) \<noteq> None \<and> sequelize (models w target) \<noteq> None
        \<and> normalizeOptions type options source target w = Inr nopts
        \<and> alias_of nopts |\<notin>| fmdom (attributes (models w source))
        \<and> fmlookup (associations (models w source)) (alias_of nopts) = Some ex
        \<and> getAssociationsIncompatibilityStatus env (assocs w ex) type target nopts \<noteq> None"
  then have "\<exists>e. isAssociationError e \<and> assertAssociationUnique env type source target nopts parent w = Inl e"
    by (simp add: assertAssociationUnique_occupied)
  then obtain e where "isAssociationError e" "assertAssociationUnique env type source target nopts parent w = Inl e"
    by blast
  with h show "\<exists>e. isAssociationError e
            \<and> defineAssociation env type source target options parent normalizeOptions construct runSync w
               = (Inl e, w)"
    by (auto simp: defineAssociation_def assertAssociationModelIsDefined_def checkNamingCollision_def)
next
  assume "(\<forall>ev c o' v. snd (runSync ev c o' v) = v) \<and> (\<forall>o' v. snd (construct o' v) = v)"
  then have "snd (associate type source target construct runSync nopts w) = w" for nopts
    by (intro associate_frame) simp_all
  then show "snd (defineAssociation env type source target options parent normalizeOptions construct runSync w) = w"
    by (auto simp: defineAssociation_def split: sum.splits)
qed

section \<open>The small schema, evaluated\<close>

lemma normalizeForeignKeyOptions_undefined: "normalizeForeignKeyOptions JUndefined = fmempty"
proof -
  have "fmlookup (normalizeForeignKeyOptions JUndefined) k = None" for k
    by (simp add: normalizeForeignKeyOptions_lookup coalesce_def nullish_def opt_get_def spread_def)
  then show ?thesis
    by (intro fmap_ext) simp
qed

lemma removeUndefined_id: "\<forall>k. fmlookup m k \<noteq> Some JUndefined \<Longrightarrow> removeUndefined m = m"
  by (intro fmap_ext) (simp add: fmlookup_removeUndefined)

lemma normalize_posts:
  "normalizeBaseAssociationOptions schema_env hasMany postsOptions s t w = Inr normalizedPosts"
proof -
  have "removeUndefined normalizedPosts = normalizedPosts"
    by (rule removeUndefined_id) (simp add: normalizedPosts_def postsOptions_def)
  then show ?thesis
    by (simp add: normalizeBaseAssociationOptions_def resolveAlias_def postsOptions_def js_get_fmupd js_get_fmempty
        hasMany_def schema_env_def normalizeForeignKeyOptions_undefined coalesce_def nullish_def normalizedPosts_def)
qed

lemma normalize_posts_hooks:
  "normalizeBaseAssociationOptions schema_env hasMany postsOptionsWithHooks s t w = Inr normalizedPostsWithHooks"
proof -
  have "removeUndefined normalizedPostsWithHooks = normalizedPostsWithHooks"
    by (rule removeUndefined_id) (simp add: normalizedPostsWithHooks_def postsOptionsWithHooks_def)
  then show ?thesis
    by (simp add: normalizeBaseAssociationOptions_def resolveAlias_def postsOptionsWithHooks_def js_get_fmupd js_get_fmempty
        hasMany_def schema_env_def normalizeForeignKeyOptions_undefined coalesce_def nullish_def normalizedPostsWithHooks_def)
qed

lemma alias_posts: "alias_of normalizedPosts = ''posts''"
  by (simp add: alias_of_def normalizedPosts_def js_get_fmupd)

lemma hooks_posts: "\<not> truthy (js_get normalizedPosts ''hooks'')"
  by (simp add: normalizedPosts_def js_get_fmupd)

lemma alias_posts_hooks: "alias_of normalizedPostsWithHooks = ''posts''"
  by (simp add: alias_of_def normalizedPostsWithHooks_def js_get_fmupd)

lemma hooks_posts_hooks: "truthy (js_get normalizedPostsWithHooks ''hooks'')"
  by (simp add: normalizedPostsWithHooks_def js_get_fmupd)

lemma schema_static: "isModelStatic schema_env (Suc 0)"
  by (simp add: schema_env_def)

lemma schema_user: "models schema 0 = userModel" and schema_post: "models schema (Suc 0) = postModel"
  by (simp_all add: schema_def)

lemma first_declaration:
  "defineAssociation schema_env hasMany 0 (Suc 0) postsOptions parent (normalizeBaseAssociationOptions schema_env)
     (newAssociation 10 hasMany 0 (Suc 0) parent) noHooks schema
   = (Inr 10, snd (newAssociation 10 hasMany 0 (Suc 0) parent normalizedPosts schema))"
  by (simp add: defineAssociation_def schema_static normalize_posts assertAssociationModelIsDefined_def
      schema_user schema_post userModel_def postModel_def checkNamingCollision_def alias_posts
      assertAssociationUnique_def associate_def runHook_def hooks_posts constructOrReuse_def
      newAssociation_def)



lemma declared_user:
  "models (declared parent) 0 = userModel\<lparr>associations := fmupd ''posts'' 10 fmempty\<rparr>"
  by (simp add: declared_def newAssociation_def schema_def alias_posts userModel_def)

lemma declared_post: "models (declared parent) (Suc 0) = postModel"
  by (simp add: declared_def newAssociation_def schema_def)

lemma declared_assoc:
  "assocs (declared parent) 10 =
     \<lparr>associationType = ''HasMany'', assoc_source = 0, assoc_target = 1, assoc_as = ''posts'',
      assoc_options = normalizedPosts, parentAssociation = parent,
      rootAssociation = (case parent of None \<Rightarrow> 10 | Some p \<Rightarrow> rootAssociation (assocs schema p)),
      accessors = fmempty\<rparr>"
  by (simp add: declared_def newAssociation_def alias_posts hasMany_def)

lemma declared_status:
  "getAssociationsIncompatibilityStatus schema_env (assocs (declared parent) 10) hasMany (Suc 0) normalizedPosts = None"
  by (simp add: getAssociationsIncompatibilityStatus_def declared_assoc hasMany_def schema_env_def isEqual_def)

lemma second_declaration_top_level:
  "defineAssociation schema_env hasMany 0 (Suc 0) postsOptions None (normalizeBaseAssociationOptions schema_env)
     (newAssociation 10 hasMany 0 (Suc 0) None) noHooks (declared None)
   = (Inl (AssociationError_SameName ''posts'' ''User''), declared None)"
  by (simp add: defineAssociation_def schema_static normalize_posts assertAssociationModelIsDefined_def
      declared_user declared_post userModel_def postModel_def checkNamingCollision_def alias_posts
      assertAssociationUnique_def declared_status declared_assoc)

lemma posts_status:
  "getAssociationsIncompatibilityStatus schema_env
     \<lparr>associationType = ''HasMany'', assoc_source = s, assoc_target = Suc 0, assoc_as = a,
      assoc_options = normalizedPosts, parentAssociation = p, rootAssociation = r, accessors = acc\<rparr>
     hasMany (Suc 0) normalizedPosts = None"
  by (simp add: getAssociationsIncompatibilityStatus_def hasMany_def schema_env_def isEqual_def)

lemma reuse_with_parent:
  "defineAssociation schema_env hasMany 0 (Suc 0) postsOptions (Some 20) (normalizeBaseAssociationOptions schema_env)
        construct noHooks (declared (Some 20))
      = (Inr 10, declared (Some 20))"
  by (simp add: defineAssociation_def schema_static normalize_posts assertAssociationModelIsDefined_def
      declared_user declared_post userModel_def postModel_def checkNamingCollision_def alias_posts
      assertAssociationUnique_def posts_status declared_assoc associate_def runHook_def hooks_posts
      constructOrReuse_def)

lemma hooked_user:
  "models hooked 0 = userModel\<lparr>attributes := fmupd ''posts'' fmempty (attributes userModel)\<rparr>"
  by (simp add: hooked_def attributeHook_def schema_def alias_posts_hooks)

lemma hooked_built_user:
  "models (snd (newAssociation 10 hasMany 0 (Suc 0) None normalizedPostsWithHooks hooked)) 0
     = userModel\<lparr>attributes := fmupd ''posts'' fmempty (attributes userModel),
                 associations := fmupd ''posts'' 10 fmempty\<rparr>"
  by (simp add: newAssociation_def hooked_user alias_posts_hooks userModel_def)

lemma hooked_declaration:
  "defineAssociation schema_env hasMany 0 (Suc 0) postsOptionsWithHooks None (normalizeBaseAssociationOptions schema_env)
     (newAssociation 10 hasMany 0 (Suc 0) None) attributeHook schema
   = (Inl (NamingCollisionError ''posts'' ''User''),
      snd (newAssociation 10 hasMany 0 (Suc 0) None normalizedPostsWithHooks hooked))"
proof -
  have b: "runHook attributeHook ''beforeAssociate''
       \<lparr>ctx_source = 0, ctx_target = Suc 0, ctx_type = hasMany, ctx_association = None,
        ctx_sequelize = sequelize (models schema 0)\<rparr> normalizedPostsWithHooks schema
       = (Inr normalizedPostsWithHooks, hooked)"
    by (simp add: runHook_def hooks_posts_hooks hooked_def attributeHook_def)
  have c: "constructOrReuse 0 (newAssociation 10 hasMany 0 (Suc 0) None) normalizedPostsWithHooks hooked
       = (Inr (10, normalizedPostsWithHooks),
          snd (newAssociation 10 hasMany 0 (Suc 0) None normalizedPostsWithHooks hooked))"
    by (simp add: constructOrReuse_def hooked_user alias_posts_hooks userModel_def newAssociation_def)
  have a: "runHook attributeHook ''afterAssociate'' ctx normalizedPostsWithHooks w
       = (Inr normalizedPostsWithHooks, w)" for ctx w
    by (simp add: runHook_def attributeHook_def)
  have "associate hasMany 0 (Suc 0) (newAssociation 10 hasMany 0 (Suc 0) None) attributeHook
          normalizedPostsWithHooks schema
        = (Inl (NamingCollisionError ''posts'' ''User''),
           snd (newAssociation 10 hasMany 0 (Suc 0) None normalizedPostsWithHooks hooked))"
    by (simp add: associate_unfold[OF b c a] alias_posts_hooks hooked_built_user userModel_def)
  then show ?thesis
    by (simp add: defineAssociation_def schema_static normalize_posts_hooks assertAssociationModelIsDefined_def
      schema_user schema_post userModel_def postModel_def checkNamingCollision_def alias_posts_hooks
      assertAssociationUnique_def)
qed

text \<open>
  C1, as stated, fails for a plain declaration: \<open>User.hasMany(Post, {as: "posts"})\<close> succeeds
  and builds association 10; the same call again, with no parent and with the association its
  own root, is rejected by the uniqueness check with the "two associations with the same name"
  error.
\<close>

theorem defineAssociation_twice_top_level_fails:
  "fst (defineAssociation schema_env hasMany 0 1 postsOptions None (normalizeBaseAssociationOptions schema_env)
     (newAssociation 10 hasMany 0 1 None) noHooks schema) = Inr 10
   \<and> fst (defineAssociation schema_env hasMany 0 1 postsOptions None (normalizeBaseAssociationOptions schema_env)
     (newAssociation 10 hasMany 0 1 None) noHooks
       (snd (defineAssociation schema_env hasMany 0 1 postsOptions None (normalizeBaseAssociationOptions schema_env)
     (newAssociation 10 hasMany 0 1 None) noHooks schema)))
     = Inl (AssociationError_SameName ''posts'' ''User'')"
  using second_declaration_top_level
  by (simp add: first_declaration declared_def)

theorem defineAssociation_repeated_reuse_witness:
  "defineAssociation schema_env hasMany 0 1 postsOptions (Some 20) (normalizeBaseAssociationOptions schema_env)
     (newAssociation 10 hasMany 0 1 (Some 20)) noHooks schema = (Inr 10, declared (Some 20))
   \<and> parentAssociation (assocs (declared (Some 20)) 10) = Some 20
   \<and> defineAssociation schema_env hasMany 0 1 postsOptions (Some 20) (normalizeBaseAssociationOptions schema_env)
     (newAssociation 10 hasMany 0 1 (Some 20)) noHooks (declared (Some 20)) = (Inr 10, declared (Some 20))"
proof -
  have f: "defineAssociation schema_env hasMany 0 1 postsOptions (Some 20) (normalizeBaseAssociationOptions schema_env)
     (newAssociation 10 hasMany 0 1 (Some 20)) noHooks schema = (Inr 10, declared (Some 20))"
    by (simp add: first_declaration declared_def)
  have 2: "sequelize (models (declared (Some 20)) 0) \<noteq> None"
    by (simp add: declared_user userModel_def)
  have 3: "sequelize (models (declared (Some 20)) 1) \<noteq> None"
    by (simp add: declared_post postModel_def)
  have 4: "normalizeBaseAssociationOptions schema_env hasMany postsOptions 0 1 (declared (Some 20)) = Inr normalizedPosts"
    by (rule normalize_posts)
  have 5: "alias_of normalizedPosts |\<notin>| fmdom (attributes (models (declared (Some 20)) 0))"
    by (simp add: alias_posts declared_user userModel_def)
  have 6: "fmlookup (associations (models (declared (Some 20)) 0)) (alias_of normalizedPosts) = Some 10"
    by (simp add: alias_posts declared_user)
  have 7: "getAssociationsIncompatibilityStatus schema_env (assocs (declared (Some 20)) 10) hasMany 1 normalizedPosts = None"
    by (simp add: declared_status)
  have 8: "Some (20::nat) \<noteq> None \<or> parentAssociation (assocs (declared (Some 20)) 10) \<noteq> None"
    by simp
  have 9: "runHook noHooks ev c normalizedPosts (declared (Some 20)) = (Inr normalizedPosts, declared (Some 20))" for ev c
    by (simp add: runHook_def noHooks_def)
  have p: "parentAssociation (assocs (declared (Some 20)) 10) = Some 20"
    by (simp add: declared_assoc)
  show ?thesis
    using defineAssociation_repeated_reuse[where normalizeOptions="normalizeBaseAssociationOptions schema_env" and nopts=normalizedPosts,
        OF f 2 3 4 5 6 7 8 9 9] f p
    by simp
qed

text \<open>
  C2, as stated, fails: with association 10 registered under \<open>posts\<close> and a classification
  of none, a declaration without parent is not reused but rejected.
\<close>

theorem defineAssociation_compatible_top_level_rejected:
  "fmlookup (associations (models (declared None) 0)) (alias_of normalizedPosts) = Some 10
   \<and> getAssociationsIncompatibilityStatus schema_env (assocs (declared None) 10) hasMany 1 normalizedPosts = None
   \<and> defineAssociation schema_env hasMany 0 1 postsOptions None (normalizeBaseAssociationOptions schema_env)
        (newAssociation 11 hasMany 0 1 None) noHooks (declared None)
      = (Inl (AssociationError_SameName ''posts'' ''User''), declared None)"
  by (simp add: defineAssociation_def schema_static normalize_posts assertAssociationModelIsDefined_def
      declared_user declared_post userModel_def postModel_def checkNamingCollision_def alias_posts
      assertAssociationUnique_def posts_status declared_assoc)

theorem assertAssociationUnique_reuse_policy_witness:
  "isModelStatic schema_env 1
   \<and> fmlookup (associations (models (declared (Some 20)) 0)) (alias_of normalizedPosts) = Some 10
   \<and> getAssociationsIncompatibilityStatus schema_env (assocs (declared (Some 20)) 10) hasMany 1 normalizedPosts = None
   \<and> assertAssociationUnique schema_env hasMany 0 1 normalizedPosts (Some 20) (declared (Some 20)) = Inr ()
   \<and> defineAssociation schema_env hasMany 0 1 postsOptions (Some 20) (normalizeBaseAssociationOptions schema_env)
        (newAssociation 11 hasMany 0 1 (Some 20)) noHooks (declared (Some 20))
      = (Inr 10, declared (Some 20))"
proof -
  have 1: "isModelStatic schema_env 1" by (simp add: schema_static)
  have 2: "sequelize (models (declared (Some 20)) 0) \<noteq> None"
    by (simp add: declared_user userModel_def)
  have 3: "sequelize (models (declared (Some 20)) 1) \<noteq> None"
    by (simp add: declared_post postModel_def)
  have 4: "normalizeBaseAssociationOptions schema_env hasMany postsOptions 0 1 (declared (Some 20)) = Inr normalizedPosts"
    by (rule normalize_posts)
  have 5: "alias_of normalizedPosts |\<notin>| fmdom (attributes (models (declared (Some 20)) 0))"
    by (simp add: alias_posts declared_user userModel_def)
  have 6: "fmlookup (associations (models (declared (Some 20)) 0)) (alias_of normalizedPosts) = Some 10"
    by (simp add: alias_posts declared_user)
  have 7: "getAssociationsIncompatibilityStatus schema_env (assocs (declared (Some 20)) 10) hasMany 1 normalizedPosts = None"
    by (simp add: declared_status)
  show ?thesis
    using assertAssociationUnique_reuse_policy[where normalizeOptions="normalizeBaseAssociationOptions schema_env" and nopts=normalizedPosts
        and parent="Some 20" and construct="newAssociation 11 hasMany 0 1 (Some 20)" and runSync=noHooks, OF 1 2 3 4 5 6]
      1 6 7 hooks_posts
    by simp
qed

text \<open>
  C4, as stated, fails: with hooks enabled and a \<open>beforeAssociate\<close> hook that declares an
  attribute named \<open>posts\<close>, the builder runs and registers association 10, then the second
  collision check fails. The call fails and the registry of \<open>User\<close>, empty before the call,
  holds the association.
\<close>

theorem defineAssociation_failure_keeps_registration:
  "fst (defineAssociation schema_env hasMany 0 1 postsOptionsWithHooks None (normalizeBaseAssociationOptions schema_env)
     (newAssociation 10 hasMany 0 1 None) attributeHook schema) = Inl (NamingCollisionError ''posts'' ''User'')
   \<and> fmlookup (associations (models schema 0)) ''posts'' = None
   \<and> fmlookup (associations (models (snd (defineAssociation schema_env hasMany 0 1 postsOptionsWithHooks None
        (normalizeBaseAssociationOptions schema_env) (newAssociation 10 hasMany 0 1 None) attributeHook schema)) 0))
        ''posts'' = Some 10"
  by (simp add: hooked_declaration hooked_built_user schema_user userModel_def)

section \<open>The theorems at the small schema\<close>

theorem getAssociationsIncompatibilityStatus_first_match_witness:
  "getAssociationsIncompatibilityStatus schema_env (assocs (declared None) 10) belongsTo 1 normalizedPosts
     = Some DIFFERENT_TYPES
   \<and> getAssociationsIncompatibilityStatus schema_env (assocs (declared None) 10) hasMany 0 normalizedPosts
     = Some DIFFERENT_TARGETS
   \<and> getAssociationsIncompatibilityStatus schema_env (assocs (declared None) 10) hasMany 1 normalizedPostsWithHooks
     = Some DIFFERENT_OPTIONS
   \<and> getAssociationsIncompatibilityStatus schema_env (assocs (declared None) 10) hasMany 1
        (fmupd ''inverse'' (JStr ''author'') normalizedPosts)
     = None"
proof -
  have k: "fmlookup normalizedPosts ''hooks'' \<noteq> fmlookup normalizedPostsWithHooks ''hooks''"
    by (simp add: normalizedPosts_def normalizedPostsWithHooks_def)
  have "\<exists>k. k \<noteq> ''inverse'' \<and> fmlookup normalizedPosts k \<noteq> fmlookup normalizedPostsWithHooks k"
    by (rule exI[of _ "''hooks''"]) (simp add: k)
  moreover have "\<not> (\<exists>k. k \<noteq> ''inverse'' \<and> fmlookup normalizedPosts k
                      \<noteq> fmlookup (fmupd ''inverse'' (JStr ''author'') normalizedPosts) k)"
    by simp
  ultimately show ?thesis
    using getAssociationsIncompatibilityStatus_first_match
            [of schema_env "assocs (declared None) 10" belongsTo 1 normalizedPosts]
          getAssociationsIncompatibilityStatus_first_match
            [of schema_env "assocs (declared None) 10" hasMany 0 normalizedPosts]
          getAssociationsIncompatibilityStatus_first_match
            [of schema_env "assocs (declared None) 10" hasMany 1 normalizedPostsWithHooks]
          getAssociationsIncompatibilityStatus_first_match
            [of schema_env "assocs (declared None) 10" hasMany 1 "fmupd ''inverse'' (JStr ''author'') normalizedPosts"]
    by (simp add: declared_assoc hasMany_def belongsTo_def schema_env_def)
qed

text \<open>The constraint deriver on \<open>User\<close> (one primary key) and on \<open>Membership\<close> (two
  primary keys, the first stored in the column \<open>user_id\<close>).\<close>

lemma userModel_columns:
  "map (\<lambda>a. case fmlookup (attributes userModel) a of
                          Some attribute \<Rightarrow>
                            if truthy (js_get attribute ''field'') then js_get attribute ''field'' else JStr a
                        | None \<Rightarrow> JStr a) (primaryKeys userModel) = [JStr ''id'']"
  by (simp add: userModel_def js_get_def)

lemma membershipModel_columns:
  "map (\<lambda>a. case fmlookup (attributes membershipModel) a of
                          Some attribute \<Rightarrow>
                            if truthy (js_get attribute ''field'') then js_get attribute ''field'' else JStr a
                        | None \<Rightarrow> JStr a) (primaryKeys membershipModel) = [JStr ''user_id'', JStr ''groupId'']"
  by (simp add: membershipModel_def js_get_def)

lemma userModel_attributes: "\<forall>a\<in>set (primaryKeys userModel). a |\<in>| fmdom (attributes userModel)"
  by (simp add: userModel_def)

lemma membershipModel_attributes:
  "\<forall>a\<in>set (primaryKeys membershipModel). a |\<in>| fmdom (attributes membershipModel)"
  by (simp add: membershipModel_def)

lemma userModel_tableName: "tableName userModel = JStr ''Users''"
  by (simp add: userModel_def)

lemma membershipModel_tableName: "tableName membershipModel = JStr ''Memberships''"
  by (simp add: membershipModel_def)

lemma constraints_on: "js_get fmempty ''foreignKeyConstraints'' \<noteq> JBool False"
  by (simp add: js_get_def)

theorem addForeignKeyConstraints_policy_witness:
  "addForeignKeyConstraints (fmupd ''allowNull'' (JBool False) fmempty) userModel
       (fmupd ''foreignKeyConstraints'' (JBool False) fmempty) ''id''
     = Inr (fmupd ''allowNull'' (JBool False) fmempty)
   \<and> (\<exists>a. addForeignKeyConstraints (fmupd ''allowNull'' (JBool False) fmempty) userModel fmempty ''id'' = Inr a
         \<and> js_get a ''references'' = JObj (fmupd ''key'' (JStr ''id'') (fmupd ''model'' (JStr ''Users'') fmempty))
         \<and> js_get a ''onDelete'' = JStr ''CASCADE''
         \<and> js_get a ''onUpdate'' = JStr ''CASCADE'')
   \<and> (\<exists>a. addForeignKeyConstraints (fmupd ''onUpdate'' (JStr ''RESTRICT'') fmempty) userModel fmempty [] = Inr a
         \<and> js_get a ''references'' = JObj (fmupd ''key'' (JStr ''id'') (fmupd ''model'' (JStr ''Users'') fmempty))
         \<and> js_get a ''onDelete'' = JStr ''SET NULL''
         \<and> js_get a ''onUpdate'' = JStr ''RESTRICT'')
   \<and> addForeignKeyConstraints fmempty membershipModel fmempty ''user_id'' = Inr fmempty
   \<and> addForeignKeyConstraints fmempty membershipModel fmempty ''groupId'' = Inr fmempty
   \<and> (\<exists>a. addForeignKeyConstraints fmempty membershipModel fmempty ''userId'' = Inr a
         \<and> js_get a ''references'' =
              JObj (fmupd ''key'' (JStr ''userId'') (fmupd ''model'' (JStr ''Memberships'') fmempty))
         \<and> js_get a ''onDelete'' = JStr ''SET NULL''
         \<and> js_get a ''onUpdate'' = JStr ''CASCADE'')
   \<and> addForeignKeyConstraints fmempty (membershipModel\<lparr>attributes := fmempty\<rparr>) fmempty ''userId''
       = Inl TypeError"
proof -
  have f: "js_get (fmupd ''foreignKeyConstraints'' (JBool False) fmempty) ''foreignKeyConstraints'' = JBool False"
    by (simp add: js_get_def)
  have 1: "addForeignKeyConstraints (fmupd ''allowNull'' (JBool False) fmempty) userModel
       (fmupd ''foreignKeyConstraints'' (JBool False) fmempty) ''id''
     = Inr (fmupd ''allowNull'' (JBool False) fmempty)"
    using addForeignKeyConstraints_policy
            [where options="fmupd ''foreignKeyConstraints'' (JBool False) fmempty"
               and newAttribute="fmupd ''allowNull'' (JBool False) fmempty" and source=userModel
               and key="''id''"] f
    by simp
  have 2: "\<exists>a. addForeignKeyConstraints (fmupd ''allowNull'' (JBool False) fmempty) userModel fmempty ''id'' = Inr a
         \<and> js_get a ''references'' = JObj (fmupd ''key'' (JStr ''id'') (fmupd ''model'' (JStr ''Users'') fmempty))
         \<and> js_get a ''onDelete'' = JStr ''CASCADE''
         \<and> js_get a ''onUpdate'' = JStr ''CASCADE''"
    using addForeignKeyConstraints_policy
            [where options=fmempty and newAttribute="fmupd ''allowNull'' (JBool False) fmempty"
               and source=userModel and key="''id''" and pks="[JStr ''id'']"]
          constraints_on userModel_attributes userModel_columns userModel_tableName
    by (simp add: js_get_fmupd js_get_fmempty) blast
  have 3: "\<exists>a. addForeignKeyConstraints (fmupd ''onUpdate'' (JStr ''RESTRICT'') fmempty) userModel fmempty [] = Inr a
         \<and> js_get a ''references'' = JObj (fmupd ''key'' (JStr ''id'') (fmupd ''model'' (JStr ''Users'') fmempty))
         \<and> js_get a ''onDelete'' = JStr ''SET NULL''
         \<and> js_get a ''onUpdate'' = JStr ''RESTRICT''"
    using addForeignKeyConstraints_policy
            [where options=fmempty and newAttribute="fmupd ''onUpdate'' (JStr ''RESTRICT'') fmempty"
               and source=userModel and key="[]" and pks="[JStr ''id'']"]
          constraints_on userModel_attributes userModel_columns userModel_tableName
    by (simp add: js_get_fmupd js_get_fmempty) blast
  have 4: "addForeignKeyConstraints fmempty membershipModel fmempty ''user_id'' = Inr fmempty"
    using addForeignKeyConstraints_policy
            [where options=fmempty and newAttribute=fmempty and source=membershipModel
               and key="''user_id''" and pks="[JStr ''user_id'', JStr ''groupId'']"]
          constraints_on membershipModel_attributes membershipModel_columns
    by simp
  have 5: "addForeignKeyConstraints fmempty membershipModel fmempty ''groupId'' = Inr fmempty"
    using addForeignKeyConstraints_policy
            [where options=fmempty and newAttribute=fmempty and source=membershipModel
               and key="''groupId''" and pks="[JStr ''user_id'', JStr ''groupId'']"]
          constraints_on membershipModel_attributes membershipModel_columns
    by simp
  have 6: "\<exists>a. addForeignKeyConstraints fmempty membershipModel fmempty ''userId'' = Inr a
         \<and> js_get a ''references'' =
              JObj (fmupd ''key'' (JStr ''userId'') (fmupd ''model'' (JStr ''Memberships'') fmempty))
         \<and> js_get a ''onDelete'' = JStr ''SET NULL''
         \<and> js_get a ''onUpdate'' = JStr ''CASCADE''"
    using addForeignKeyConstraints_policy
            [where options=fmempty and newAttribute=fmempty and source=membershipModel
               and key="''userId''" and pks="[JStr ''user_id'', JStr ''groupId'']"]
          constraints_on membershipModel_attributes membershipModel_columns membershipModel_tableName
    by (simp add: js_get_fmempty) blast
  have m: "\<not> (\<forall>a\<in>set (primaryKeys (membershipModel\<lparr>attributes := fmempty\<rparr>)).
               a |\<in>| fmdom (attributes (membershipModel\<lparr>attributes := fmempty\<rparr>)))"
    by (auto simp: membershipModel_def)
  have 7: "addForeignKeyConstraints fmempty (membershipModel\<lparr>attributes := fmempty\<rparr>) fmempty ''userId''
       = Inl TypeError"
    using addForeignKeyConstraints_policy
            [where options=fmempty and newAttribute=fmempty
               and source="membershipModel\<lparr>attributes := fmempty\<rparr>" and key="''userId''"]
          constraints_on m
    by blast
  from 1 2 3 4 5 6 7 show ?thesis by blast
qed

text \<open>The injection of \<open>get\<close>, \<open>hasSingle\<close>, \<open>hasAll\<close> and of a kind without
  accessor, \<open>toString\<close>, into the prototype of \<open>User\<close>.\<close>

lemma postsAccessors_names:
  "targetMethodName objectPrototype postsAccessors ''get'' = ''getPosts''"
  "targetMethodName objectPrototype postsAccessors ''hasSingle'' = ''hasPost''"
  "targetMethodName objectPrototype postsAccessors ''hasAll'' = ''hasPosts''"
  "targetMethodName objectPrototype postsAccessors ''toString'' = nativeFunction ''toString''"
  by (simp_all add: targetMethodName_def postsAccessors_def objectPrototype_def)

lemma nativeFunction_toString: "nativeFunction ''toString'' = ''function toString() { [native code] }''"
  by (simp add: nativeFunction_def)

theorem mixinMethods_never_shadows_witness:
  "fmlookup (mixinMethods objectPrototype 10 postsAccessors userPrototype
               [''get'', ''hasSingle'', ''hasAll'', ''toString''] (Some postsAliases)) ''getPosts''
     = Some customGetPosts
   \<and> fmlookup (mixinMethods objectPrototype 10 postsAccessors userPrototype
               [''get'', ''hasSingle'', ''hasAll'', ''toString''] (Some postsAliases)) ''hasPost''
     = Some (mixinDescriptor 10 ''has'')
   \<and> fmlookup (mixinMethods objectPrototype 10 postsAccessors userPrototype
               [''get'', ''hasSingle'', ''hasAll'', ''toString''] (Some postsAliases)) ''hasPosts''
     = Some (mixinDescriptor 10 ''has'')
   \<and> fmlookup (mixinMethods objectPrototype 10 postsAccessors userPrototype
               [''get'', ''hasSingle'', ''hasAll'', ''toString''] (Some postsAliases))
         ''function toString() { [native code] }''
     = Some (mixinDescriptor 10 ''function toString() { [native code] }'')
   \<and> fmlookup (mixinMethods objectPrototype 10 postsAccessors userPrototype
               [''get'', ''hasSingle'', ''hasAll'', ''toString''] (Some postsAliases)) ''setPosts''
     = None
   \<and> fmlookup (mixinMethods objectPrototype 10 postsAccessors userPrototype
               [''get'', ''hasSingle''] None) ''hasPost''
     = Some (mixinDescriptor 10 ''hasSingle'')
   \<and> call_function (\<lambda>a m args. (a, m, args)) (\<lambda>f this args. (0, f, args))
        (prop_value (mixinDescriptor (10::nat) ''has'' :: (string, nat) property_descriptor)) ''user1'' [''p'']
     = (10, ''has'', [''user1'', ''p''])"
proof -
  let ?ms = "[''get'', ''hasSingle'', ''hasAll'', ''toString'']"
  let ?R = "mixinMethods objectPrototype (10::nat) postsAccessors userPrototype ?ms (Some postsAliases)"
  have d: "distinct (map (targetMethodName objectPrototype postsAccessors) ?ms)"
    by (simp add: postsAccessors_names nativeFunction_toString)
  have d2: "distinct (map (targetMethodName objectPrototype postsAccessors) [''get'', ''hasSingle''])"
    by (simp add: postsAccessors_names)
  have own: "fmlookup userPrototype ''getPosts'' = Some customGetPosts"
    by (simp add: userPrototype_def)
  have free: "''hasPost'' |\<notin>| fmdom userPrototype" "''hasPosts'' |\<notin>| fmdom userPrototype"
    "nativeFunction ''toString'' |\<notin>| fmdom userPrototype"
    by (simp_all add: userPrototype_def nativeFunction_toString)
  have acc: "fmlookup postsAccessors ''hasSingle'' = Some ''hasPost''"
    "fmlookup postsAccessors ''hasAll'' = Some ''hasPosts''"
    by (simp_all add: postsAccessors_def)
  have al: "fmlookup postsAliases ''hasSingle'' = Some ''has''" "fmlookup postsAliases ''hasAll'' = Some ''has''"
    "fmlookup postsAliases ''toString'' = None"
    by (simp_all add: postsAliases_def)
  have inh: "fmlookup objectPrototype ''toString'' = Some (nativeFunction ''toString'')"
    by (simp add: objectPrototype_def)
  have 1: "fmlookup ?R ''getPosts'' = Some customGetPosts"
    using mixinMethods_never_shadows
            [where proto=userPrototype and n="''getPosts''" and p=customGetPosts and inh=objectPrototype
               and a="10::nat" and acc=postsAccessors and methods="?ms" and aliases="Some postsAliases",
             THEN conjunct1] own
    by simp
  have 2: "fmlookup ?R ''hasPost'' = Some (mixinDescriptor 10 ''has'')"
    using mixinMethods_never_shadows
            [where proto=userPrototype and inh=objectPrototype and m="''hasSingle''" and nm="''hasPost''"
               and a="10::nat" and acc=postsAccessors and methods="?ms" and aliases="Some postsAliases",
             THEN conjunct2, THEN conjunct2, THEN conjunct1]
          d acc free al
    by simp
  have 3: "fmlookup ?R ''hasPosts'' = Some (mixinDescriptor 10 ''has'')"
    using mixinMethods_never_shadows
            [where proto=userPrototype and inh=objectPrototype and m="''hasAll''" and nm="''hasPosts''"
               and a="10::nat" and acc=postsAccessors and methods="?ms" and aliases="Some postsAliases",
             THEN conjunct2, THEN conjunct2, THEN conjunct1]
          d acc free al
    by simp
  have r: "realMethod objectPrototype (Some postsAliases) ''toString'' = nativeFunction ''toString''"
    using mixinMethods_never_shadows
            [where inh=objectPrototype and aliases="Some postsAliases" and m="''toString''",
             THEN conjunct2, THEN conjunct2, THEN conjunct2, THEN conjunct2, THEN conjunct2, THEN conjunct1] al inh
    by simp
  have 4: "fmlookup ?R (nativeFunction ''toString'') = Some (mixinDescriptor 10 (nativeFunction ''toString''))"
    using mixinMethods_never_shadows
            [where proto=userPrototype and inh=objectPrototype and m="''toString''"
               and a="10::nat" and acc=postsAccessors and methods="?ms" and aliases="Some postsAliases",
             THEN conjunct2, THEN conjunct1]
          free r
    by (simp add: postsAccessors_names nativeFunction_toString)
  have 5: "fmlookup ?R ''setPosts'' = None"
    using mixinMethods_never_shadows
            [where proto=userPrototype and n="''setPosts''" and inh=objectPrototype
               and a="10::nat" and acc=postsAccessors and methods="?ms" and aliases="Some postsAliases",
             THEN conjunct2, THEN conjunct2, THEN conjunct2, THEN conjunct1]
    by (simp add: postsAccessors_names nativeFunction_toString userPrototype_def)
  have 6: "fmlookup (mixinMethods objectPrototype (10::nat) postsAccessors userPrototype
               [''get'', ''hasSingle''] None) ''hasPost'' = Some (mixinDescriptor 10 ''hasSingle'')"
    using mixinMethods_never_shadows
            [where proto=userPrototype and inh=objectPrototype and m="''hasSingle''" and nm="''hasPost''"
               and a="10::nat" and acc=postsAccessors and methods="[''get'', ''hasSingle'']" and aliases=None,
             THEN conjunct2, THEN conjunct2, THEN conjunct1]
          d2 acc free
    by simp
  have 7: "call_function (\<lambda>a m args. (a, m, args)) (\<lambda>f this args. (0, f, args))
        (prop_value (mixinDescriptor (10::nat) ''has'' :: (string, nat) property_descriptor)) ''user1'' [''p'']
     = (10, ''has'', [''user1'', ''p''])"
    using mixinMethods_never_shadows
            [where a="10::nat" and r="''has''" and impl="\<lambda>a m args. (a, m, args)"
               and user="\<lambda>f this args. (0::nat, f, args)" and this="''user1''" and params="[''p'']",
             THEN conjunct2, THEN conjunct2, THEN conjunct2, THEN conjunct2, THEN conjunct2,
             THEN conjunct2, THEN conjunct2, THEN conjunct2, THEN conjunct2]
    by simp
  from 1 2 3 4 5 6 7 show ?thesis
    by (simp add: nativeFunction_toString)
qed

text \<open>
  C6, as stated, fails for the multi-valued kinds: the \<open>plural\<close> of the name pair is the
  given string itself, not its pluralization. With an inflector that adds a final \<open>s\<close>,
  \<open>hasMany\<close> with \<open>as: "tag"\<close> gives \<open>plural = "tag"\<close>, while \<open>pluralize("tag")\<close> is
  \<open>"tags"\<close>.
\<close>

theorem normalizeBaseAssociationOptions_plural_not_pluralized:
  "normalizeBaseAssociationOptions schema_env hasMany (fmupd ''as'' (JStr ''tag'') fmempty) 0 1 schema
     = Inr (fmupd ''name'' (JObj (fmupd ''singular'' (JStr ''tag'') (fmupd ''plural'' (JStr ''tag'') fmempty)))
             (fmupd ''as'' (JStr ''tag'')
               (fmupd ''hooks'' (JBool False)
                 (fmupd ''foreignKey'' (JObj fmempty) (fmupd ''as'' (JStr ''tag'') fmempty)))))
   \<and> pluralize schema_env ''tag'' = ''tags''"
proof -
  let ?r = "fmupd ''name'' (JObj (fmupd ''singular'' (JStr ''tag'') (fmupd ''plural'' (JStr ''tag'') fmempty)))
             (fmupd ''as'' (JStr ''tag'')
               (fmupd ''hooks'' (JBool False)
                 (fmupd ''foreignKey'' (JObj fmempty) (fmupd ''as'' (JStr ''tag'') fmempty))))"
  have "removeUndefined ?r = ?r"
    by (rule removeUndefined_id) simp
  then show ?thesis
    by (simp add: normalizeBaseAssociationOptions_def resolveAlias_def js_get_fmupd js_get_fmempty
        hasMany_def schema_env_def normalizeForeignKeyOptions_undefined coalesce_def nullish_def)
qed

theorem normalizeBaseAssociationOptions_string_alias_witness:
  "(\<exists>r. normalizeBaseAssociationOptions schema_env hasMany (fmupd ''as'' (JStr ''tags'') fmempty) 0 1 schema = Inr r
        \<and> alias_of r = ''tags''
        \<and> opt_get (js_get r ''name'') ''plural'' = JStr ''tags''
        \<and> opt_get (js_get r ''name'') ''singular'' = JStr ''tag'')
   \<and> (\<exists>r. normalizeBaseAssociationOptions schema_env belongsTo (fmupd ''as'' (JStr ''owner'') fmempty) 0 1 schema = Inr r
        \<and> alias_of r = ''owner''
        \<and> opt_get (js_get r ''name'') ''plural'' = JStr ''owners''
        \<and> opt_get (js_get r ''name'') ''singular'' = JStr ''owner'')"
proof -
  have a: "js_get (fmupd ''as'' (JStr s) fmempty) ''as'' = JStr s" for s
    by (simp add: js_get_def)
  have d: "k \<noteq> ''as'' \<Longrightarrow> k |\<notin>| fmdom (fmupd ''as'' (JStr s) fmempty)" for k s
    by auto
  have 1: "\<exists>r. normalizeBaseAssociationOptions schema_env hasMany (fmupd ''as'' (JStr ''tags'') fmempty) 0 1 schema = Inr r
        \<and> alias_of r = ''tags''
        \<and> opt_get (js_get r ''name'') ''plural'' = JStr ''tags''
        \<and> opt_get (js_get r ''name'') ''singular'' = JStr ''tag''"
    using normalizeBaseAssociationOptions_string_alias
            [of "fmupd ''as'' (JStr ''tags'') fmempty" "''tags''" schema_env hasMany 0 1 schema]
    by (simp add: a hasMany_def schema_env_def) blast
  have 2: "\<exists>r. normalizeBaseAssociationOptions schema_env belongsTo (fmupd ''as'' (JStr ''owner'') fmempty) 0 1 schema = Inr r
        \<and> alias_of r = ''owner''
        \<and> opt_get (js_get r ''name'') ''plural'' = JStr ''owners''
        \<and> opt_get (js_get r ''name'') ''singular'' = JStr ''owner''"
    using normalizeBaseAssociationOptions_string_alias
            [of "fmupd ''as'' (JStr ''owner'') fmempty" "''owner''" schema_env belongsTo 0 1 schema]
    by (simp add: a belongsTo_def schema_env_def) blast
  from 1 2 show ?thesis by blast
qed

lemma schema_static0: "isModelStatic schema_env 0"
  by (simp add: schema_env_def)

lemma hooked_post: "models hooked (Suc 0) = postModel"
  by (simp add: hooked_def attributeHook_def schema_def)

theorem defineAssociation_collision_checks_witness:
  "defineAssociation schema_env hasMany 0 1 postsOptions None (normalizeBaseAssociationOptions schema_env)
     (newAssociation 10 hasMany 0 1 None) noHooks hooked
     = (Inl (NamingCollisionError ''posts'' ''User''), hooked)
   \<and> defineAssociation schema_env hasMany 0 1 postsOptionsWithHooks None (normalizeBaseAssociationOptions schema_env)
     (newAssociation 10 hasMany 0 1 None) attributeHook schema
     = (Inl (NamingCollisionError ''posts'' ''User''),
        snd (newAssociation 10 hasMany 0 1 None normalizedPostsWithHooks hooked))"
proof -
  let ?built = "snd (newAssociation 10 hasMany 0 1 None normalizedPostsWithHooks hooked)"
  have s: "isModelStatic schema_env 1" by (simp add: schema_static)
  have h2: "sequelize (models hooked 0) \<noteq> None" by (simp add: hooked_user userModel_def)
  have h3: "sequelize (models hooked 1) \<noteq> None" by (simp add: hooked_post postModel_def)
  have h4: "normalizeBaseAssociationOptions schema_env hasMany postsOptions 0 1 hooked = Inr normalizedPosts"
    by (rule normalize_posts)
  have h5: "alias_of normalizedPosts |\<in>| fmdom (attributes (models hooked 0))"
    by (simp add: alias_posts hooked_user)
  have n: "model_name (models hooked 0) = ''User''" by (simp add: hooked_user userModel_def)
  have first: "defineAssociation schema_env hasMany 0 1 postsOptions None (normalizeBaseAssociationOptions schema_env)
     (newAssociation 10 hasMany 0 1 None) noHooks hooked
     = (Inl (NamingCollisionError ''posts'' ''User''), hooked)"
    using defineAssociation_collision_checks
            [where normalizeOptions="normalizeBaseAssociationOptions schema_env" and nopts=normalizedPosts
               and parent=None and construct="newAssociation 10 hasMany 0 1 None" and runSync=noHooks,
             OF s h2 h3 h4] h5 n alias_posts
    by simp
  have s2: "sequelize (models schema 0) \<noteq> None" by (simp add: schema_user userModel_def)
  have s3: "sequelize (models schema 1) \<noteq> None" by (simp add: schema_post postModel_def)
  have s4: "normalizeBaseAssociationOptions schema_env hasMany postsOptionsWithHooks 0 1 schema
              = Inr normalizedPostsWithHooks"
    by (rule normalize_posts_hooks)
  have s5: "alias_of normalizedPostsWithHooks |\<notin>| fmdom (attributes (models schema 0))"
    by (simp add: alias_posts_hooks schema_user userModel_def)
  have s6: "assertAssociationUnique schema_env hasMany 0 1 normalizedPostsWithHooks None schema = Inr ()"
    by (simp add: assertAssociationUnique_def alias_posts_hooks schema_user userModel_def)
  have b: "runHook attributeHook ''beforeAssociate''
       \<lparr>ctx_source = 0, ctx_target = 1, ctx_type = hasMany, ctx_association = None,
        ctx_sequelize = sequelize (models schema 0)\<rparr> normalizedPostsWithHooks schema
       = (Inr normalizedPostsWithHooks, hooked)"
    by (simp add: runHook_def hooks_posts_hooks hooked_def attributeHook_def)
  have c: "constructOrReuse 0 (newAssociation 10 hasMany 0 1 None) normalizedPostsWithHooks hooked
       = (Inr (10, normalizedPostsWithHooks), ?built)"
    by (simp add: constructOrReuse_def hooked_user alias_posts_hooks userModel_def newAssociation_def)
  have a: "runHook attributeHook ''afterAssociate''
       \<lparr>ctx_source = 0, ctx_target = 1, ctx_type = hasMany, ctx_association = Some 10,
        ctx_sequelize = sequelize (models schema 0)\<rparr> normalizedPostsWithHooks ?built
       = (Inr normalizedPostsWithHooks, ?built)"
    by (simp add: runHook_def attributeHook_def)
  have coll: "alias_of normalizedPostsWithHooks |\<in>| fmdom (attributes (models ?built 0))"
    using hooked_built_user by (simp add: alias_posts_hooks)
  have nm: "model_name (models ?built 0) = ''User''"
    using hooked_built_user by (simp add: userModel_def)
  have second: "defineAssociation schema_env hasMany 0 1 postsOptionsWithHooks None (normalizeBaseAssociationOptions schema_env)
     (newAssociation 10 hasMany 0 1 None) attributeHook schema
     = (Inl (NamingCollisionError ''posts'' ''User''), ?built)"
    using defineAssociation_collision_checks
            [where normalizeOptions="normalizeBaseAssociationOptions schema_env" and nopts=normalizedPostsWithHooks
               and parent=None and construct="newAssociation 10 hasMany 0 1 None" and runSync=attributeHook
               and ?o1.0=normalizedPostsWithHooks and ?w1.0=hooked and a=10 and ?o2.0=normalizedPostsWithHooks
               and ?w2.0="?built" and ?o3.0=normalizedPostsWithHooks and ?w3.0="?built",
             OF s s2 s3 s4] s5 s6 b c a coll nm alias_posts_hooks
    by simp
  from first second show ?thesis by simp
qed



theorem defineAssociation_failure_frame_witness:
  "defineAssociation schema_env hasMany 0 5 postsOptions None (normalizeBaseAssociationOptions schema_env)
     (newAssociation 10 hasMany 0 5 None) noHooks schema
     = (Inl (NotAModelError ''User''), schema)
   \<and> getAssociationsIncompatibilityStatus schema_env (assocs (declared (Some 20)) 10) hasMany 0 normalizedPosts
       = Some DIFFERENT_TARGETS
   \<and> defineAssociation schema_env hasMany 0 0 postsOptions (Some 20) (normalizeBaseAssociationOptions schema_env)
        (newAssociation 11 hasMany 0 0 (Some 20)) noHooks (declared (Some 20))
       = (Inl (AssociationError_Incompatible ''posts'' (Some DIFFERENT_TARGETS)), declared (Some 20))
   \<and> snd (defineAssociation schema_env hasMany 0 1 postsOptions None (normalizeBaseAssociationOptions schema_env)
        (\<lambda>normalizedOptions v. (Inl (Thrown ''constructor''), v)) noHooks schema) = schema"
proof -
  have nm: "\<not> isModelStatic schema_env 5" by (simp add: schema_env_def)
  have 1: "defineAssociation schema_env hasMany 0 5 postsOptions None (normalizeBaseAssociationOptions schema_env)
     (newAssociation 10 hasMany 0 5 None) noHooks schema
     = (Inl (NotAModelError ''User''), schema)"
    by (simp add: defineAssociation_def nm schema_user userModel_def)
  have st: "getAssociationsIncompatibilityStatus schema_env (assocs (declared (Some 20)) 10) hasMany 0 normalizedPosts
       = Some DIFFERENT_TARGETS"
    by (simp add: getAssociationsIncompatibilityStatus_def declared_assoc hasMany_def schema_env_def)
  have h: "isModelStatic schema_env 0 \<and> sequelize (models (declared (Some 20)) 0) \<noteq> None
        \<and> sequelize (models (declared (Some 20)) 0) \<noteq> None
        \<and> normalizeBaseAssociationOptions schema_env hasMany postsOptions 0 0 (declared (Some 20)) = Inr normalizedPosts
        \<and> alias_of normalizedPosts |\<notin>| fmdom (attributes (models (declared (Some 20)) 0))
        \<and> fmlookup (associations (models (declared (Some 20)) 0)) (alias_of normalizedPosts) = Some 10
        \<and> getAssociationsIncompatibilityStatus schema_env (assocs (declared (Some 20)) 10) hasMany 0 normalizedPosts \<noteq> None"
    by (simp add: schema_static0 declared_user userModel_def normalize_posts alias_posts st)
  have 2: "defineAssociation schema_env hasMany 0 0 postsOptions (Some 20) (normalizeBaseAssociationOptions schema_env)
        (newAssociation 11 hasMany 0 0 (Some 20)) noHooks (declared (Some 20))
       = (Inl (AssociationError_Incompatible ''posts'' (Some DIFFERENT_TARGETS)), declared (Some 20))"
    using h st
    by (simp add: defineAssociation_def assertAssociationModelIsDefined_def checkNamingCollision_def
        assertAssociationUnique_occupied alias_posts)
  have fr: "(\<forall>ev c o' v. snd (noHooks ev c o' v) = v)
      \<and> (\<forall>o' v. snd ((\<lambda>normalizedOptions v. (Inl (Thrown ''constructor''), v)) o' v) = v)"
    by (simp add: noHooks_def)
  have 3: "snd (defineAssociation schema_env hasMany 0 1 postsOptions None (normalizeBaseAssociationOptions schema_env)
        (\<lambda>normalizedOptions v. (Inl (Thrown ''constructor''), v)) noHooks schema) = schema"
    using defineAssociation_failure_frame
            [where normalizeOptions="normalizeBaseAssociationOptions schema_env" and env=schema_env
               and type=hasMany and source=0 and target=1 and options=postsOptions and parent=None
               and construct="\<lambda>normalizedOptions v. (Inl (Thrown ''constructor''), v)"
               and runSync=noHooks and w=schema] fr
    by blast
  have 4: "\<exists>e. isAssociationError e \<and> defineAssociation schema_env hasMany 0 0 postsOptions (Some 20)
        (normalizeBaseAssociationOptions schema_env)
        (newAssociation 11 hasMany 0 0 (Some 20)) noHooks (declared (Some 20)) = (Inl e, declared (Some 20))"
    using defineAssociation_failure_frame
            [where normalizeOptions="normalizeBaseAssociationOptions schema_env" and env=schema_env
               and type=hasMany and source=0 and target=0 and options=postsOptions and parent="Some 20"
               and construct="newAssociation 11 hasMany 0 0 (Some 20)"
               and runSync=noHooks and w="declared (Some 20)" and nopts=normalizedPosts and ex=10] h
    by blast
  from 1 st 2 3 4 show ?thesis by simp
qed

end
